theory Spec2Isabelle
  imports Main "HOL-Library.Sublist" "HOL-Library.Word"
begin

section \<open>Go strings\<close>

text \<open>
  A Go string is a sequence of bytes, here a \<open>string\<close> (a list of 8-bit characters).
  The functions of Go's package \<open>strings\<close> that the gateway calls are written out below
  with the results the standard library documents for them.
\<close>

definition strings_HasPrefix :: "string \<Rightarrow> string \<Rightarrow> bool" where
  "strings_HasPrefix s p = prefix p s"

definition strings_TrimPrefix :: "string \<Rightarrow> string \<Rightarrow> string" where
  "strings_TrimPrefix s p = (if prefix p s then drop (length p) s else s)"

text \<open>\<open>strings.Index\<close>: the byte offset of the first occurrence, or \<open>-1\<close>.\<close>

fun strings_Index :: "string \<Rightarrow> string \<Rightarrow> int" where
  "strings_Index [] sub = (if sub = [] then 0 else - 1)"
| "strings_Index (c # cs) sub =
     (if prefix sub (c # cs) then 0
      else (let i = strings_Index cs sub in if i < 0 then - 1 else i + 1))"

definition strings_Contains :: "string \<Rightarrow> string \<Rightarrow> bool" where
  "strings_Contains s sub = (strings_Index s sub \<ge> 0)"

text \<open>
  \<open>strings.Split\<close> for a non-empty separator (the gateway only splits at
  \<open>CR LF\<close> and \<open>LF\<close>): the pieces between the non-overlapping occurrences of the
  separator, found from the left; always at least one piece.
\<close>

fun splitFrom :: "string \<Rightarrow> string \<Rightarrow> string \<Rightarrow> string list" where
  "splitFrom sep cur [] = [cur]"
| "splitFrom sep cur (c # cs) =
     (if sep \<noteq> [] \<and> prefix sep (c # cs)
      then cur # splitFrom sep [] (drop (length sep - 1) cs)
      else splitFrom sep (cur @ [c]) cs)"

definition strings_Split :: "string \<Rightarrow> string \<Rightarrow> string list" where
  "strings_Split s sep = splitFrom sep [] s"

fun strings_Join :: "string list \<Rightarrow> string \<Rightarrow> string" where
  "strings_Join [] sep = []"
| "strings_Join [x] sep = x"
| "strings_Join (x # y # ys) sep = x @ sep @ strings_Join (y # ys) sep"

text \<open>
  White space is what \<open>unicode.IsSpace\<close> accepts. In a byte string these are the six
  ASCII characters and the UTF-8 encodings of U+0085, U+00A0, U+1680, U+2000 to U+200A,
  U+2028, U+2029, U+202F, U+205F and U+3000. Each encoding starts with a byte that
  cannot continue another rune, so looking for the encodings at a byte offset finds
  the same runes as Go's decoder.
\<close>

definition spaceRunes :: "string list" where
  "spaceRunes =
     [[CHR 0x09], [CHR 0x0A], [CHR 0x0B], [CHR 0x0C], [CHR 0x0D], [CHR 0x20],
      [CHR 0xC2, CHR 0x85], [CHR 0xC2, CHR 0xA0],
      [CHR 0xE1, CHR 0x9A, CHR 0x80],
      [CHR 0xE2, CHR 0x80, CHR 0x80], [CHR 0xE2, CHR 0x80, CHR 0x81],
      [CHR 0xE2, CHR 0x80, CHR 0x82], [CHR 0xE2, CHR 0x80, CHR 0x83],
      [CHR 0xE2, CHR 0x80, CHR 0x84], [CHR 0xE2, CHR 0x80, CHR 0x85],
      [CHR 0xE2, CHR 0x80, CHR 0x86], [CHR 0xE2, CHR 0x80, CHR 0x87],
      [CHR 0xE2, CHR 0x80, CHR 0x88], [CHR 0xE2, CHR 0x80, CHR 0x89],
      [CHR 0xE2, CHR 0x80, CHR 0x8A],
      [CHR 0xE2, CHR 0x80, CHR 0xA8], [CHR 0xE2, CHR 0x80, CHR 0xA9],
      [CHR 0xE2, CHR 0x80, CHR 0xAF], [CHR 0xE2, CHR 0x81, CHR 0x9F],
      [CHR 0xE3, CHR 0x80, CHR 0x80]]"

text \<open>The width in bytes of the white-space rune at the start of a string, 0 if none.\<close>

definition spacePrefix :: "string \<Rightarrow> nat" where
  "spacePrefix s = (case find (\<lambda>r. prefix r s) spaceRunes of None \<Rightarrow> 0 | Some r \<Rightarrow> length r)"

text \<open>The same at the end of a string; the argument is the string reversed.\<close>

definition spaceSuffixRev :: "string \<Rightarrow> nat" where
  "spaceSuffixRev s =
     (case find (\<lambda>r. prefix (rev r) s) spaceRunes of None \<Rightarrow> 0 | Some r \<Rightarrow> length r)"

fun trimLeftSpace :: "string \<Rightarrow> string" where
  "trimLeftSpace [] = []"
| "trimLeftSpace (c # cs) =
     (if spacePrefix (c # cs) = 0 then c # cs
      else trimLeftSpace (drop (spacePrefix (c # cs) - 1) cs))"

fun trimRightSpaceRev :: "string \<Rightarrow> string" where
  "trimRightSpaceRev [] = []"
| "trimRightSpaceRev (c # cs) =
     (if spaceSuffixRev (c # cs) = 0 then c # cs
      else trimRightSpaceRev (drop (spaceSuffixRev (c # cs) - 1) cs))"

definition strings_TrimSpace :: "string \<Rightarrow> string" where
  "strings_TrimSpace s = rev (trimRightSpaceRev (rev (trimLeftSpace s)))"

text \<open>\<open>strings.Fields\<close>: the maximal runs of bytes between white-space runes.\<close>

fun fieldsFrom :: "string \<Rightarrow> string \<Rightarrow> string list" where
  "fieldsFrom cur [] = (if cur = [] then [] else [cur])"
| "fieldsFrom cur (c # cs) =
     (if spacePrefix (c # cs) = 0 then fieldsFrom (cur @ [c]) cs
      else (if cur = [] then [] else [cur])
           @ fieldsFrom [] (drop (spacePrefix (c # cs) - 1) cs))"

definition strings_Fields :: "string \<Rightarrow> string list" where
  "strings_Fields s = fieldsFrom [] s"

text \<open>
  \<open>strings.ToUpper\<close> and \<open>strings.ToLower\<close> on the ASCII letters; other bytes are
  left as they are. No rune outside ASCII has \<open>T\<close>, \<open>C\<close> or \<open>P\<close> as its upper case,
  so the comparison with \<open>TCP\<close> below comes out as in Go for every string.
\<close>

definition upperByte :: "char \<Rightarrow> char" where
  "upperByte c = (let n = (of_char c :: nat) in if 97 \<le> n \<and> n \<le> 122 then char_of (n - 32) else c)"

definition lowerByte :: "char \<Rightarrow> char" where
  "lowerByte c = (let n = (of_char c :: nat) in if 65 \<le> n \<and> n \<le> 90 then char_of (n + 32) else c)"

definition strings_ToUpper :: "string \<Rightarrow> string" where
  "strings_ToUpper s = map upperByte s"

definition strings_ToLower :: "string \<Rightarrow> string" where
  "strings_ToLower s = map lowerByte s"

section \<open>Wowza candidates (wowza.go)\<close>

text \<open>
  \<open>cleanWowzaCandidate\<close> in its two steps: cut the candidate at the first
  \<open>" generation"\<close> when that is not at offset 0, then add \<open>tcptype passive\<close> to a TCP
  candidate that has no \<open>tcptype\<close>.
\<close>

definition dropGeneration :: "string \<Rightarrow> string" where
  "dropGeneration candidate =
     (let idx = strings_Index candidate '' generation''
      in if idx > 0 then strings_TrimSpace (take (nat idx) candidate) else candidate)"

definition addTcpType :: "string \<Rightarrow> string" where
  "addTcpType candidate =
     (let parts = strings_Fields candidate
      in if length parts \<ge> 3
            \<and> strings_ToUpper (parts ! 2) = ''TCP''
            \<and> \<not> strings_Contains candidate ''tcptype''
         then candidate @ '' tcptype passive''
         else candidate)"

definition cleanWowzaCandidate :: "string \<Rightarrow> string" where
  "cleanWowzaCandidate candidate = addTcpType (dropGeneration candidate)"

section \<open>SDP data (sdp.go)\<close>

record ICECredentials =
  IceUfrag :: string
  IcePwd :: string
  Fingerprint :: string
  Setup :: string
  Candidates :: "string list"

record MediaInfo =
  Mid :: string
  Type :: string

definition CRLF :: string where
  "CRLF = [CHR 0x0D, CHR 0x0A]"

definition LF :: string where
  "LF = [CHR 0x0A]"

definition splitSDPLines :: "string \<Rightarrow> string list" where
  "splitSDPLines sdp =
     (let lines = strings_Split sdp CRLF
      in if length lines = 1 then strings_Split sdp LF else lines)"

text \<open>The body of the loop of \<open>ExtractCredentials\<close>: one line updates the credentials.\<close>

definition credentialsLine :: "ICECredentials \<Rightarrow> string \<Rightarrow> ICECredentials" where
  "credentialsLine creds raw =
     (let line = strings_TrimSpace raw
      in if strings_HasPrefix line ''a=ice-ufrag:''
           then creds\<lparr>IceUfrag := strings_TrimPrefix line ''a=ice-ufrag:''\<rparr>
         else if strings_HasPrefix line ''a=ice-pwd:''
           then creds\<lparr>IcePwd := strings_TrimPrefix line ''a=ice-pwd:''\<rparr>
         else if strings_HasPrefix line ''a=fingerprint:''
           then creds\<lparr>Fingerprint := strings_TrimPrefix line ''a=fingerprint:''\<rparr>
         else if strings_HasPrefix line ''a=setup:''
           then creds\<lparr>Setup := strings_TrimPrefix line ''a=setup:''\<rparr>
         else if strings_HasPrefix line ''a=candidate:''
           then creds\<lparr>Candidates := Candidates creds @ [strings_TrimPrefix line ''a='']\<rparr>
         else creds)"

definition emptyCredentials :: ICECredentials where
  "emptyCredentials =
     \<lparr>IceUfrag = [], IcePwd = [], Fingerprint = [], Setup = [], Candidates = []\<rparr>"

text \<open>\<open>ExtractCredentials\<close> returns a nil error on every path; the result type keeps it.\<close>

definition ExtractCredentials :: "string \<Rightarrow> string + ICECredentials" where
  "ExtractCredentials sdpStr = Inr (foldl credentialsLine emptyCredentials (splitSDPLines sdpStr))"

text \<open>
  The loop of \<open>ExtractMediaOrder\<close> carries \<open>result\<close> and the pointer \<open>current\<close>
  (\<open>None\<close> for nil). An \<open>m=\<close> line appends a copy of the current section; it starts a
  new one only when it has at least four fields, and otherwise leaves \<open>current\<close> as it is.
\<close>

definition mediaOrderLine ::
  "MediaInfo list \<times> MediaInfo option \<Rightarrow> string \<Rightarrow> MediaInfo list \<times> MediaInfo option" where
  "mediaOrderLine st raw =
     (let result = fst st; current = snd st; line = strings_TrimSpace raw
      in if strings_HasPrefix line ''m=''
         then (let result' = (case current of None \<Rightarrow> result | Some c \<Rightarrow> result @ [c]);
                   parts = strings_Fields line
               in if length parts \<ge> 4
                  then (result', Some \<lparr>Mid = [], Type = drop 2 (parts ! 0)\<rparr>)
                  else (result', current))
         else (case current of
                 Some c \<Rightarrow>
                   if strings_HasPrefix line ''a=mid:''
                   then (result, Some (c\<lparr>Mid := strings_TrimPrefix line ''a=mid:''\<rparr>))
                   else (result, current)
               | None \<Rightarrow> (result, current)))"

definition ExtractMediaOrder :: "string \<Rightarrow> MediaInfo list" where
  "ExtractMediaOrder sdpStr =
     (let st = foldl mediaOrderLine ([], None) (splitSDPLines sdpStr)
      in case snd st of None \<Rightarrow> fst st | Some c \<Rightarrow> fst st @ [c])"

subsection \<open>The session description of the SDP library\<close>

text \<open>
  \<open>sdp.SessionDescription\<close> of the imported library \<open>pion/sdp\<close>, with the fields the
  gateway reads or writes as the library declares them. The fields it only carries
  along (information, URI, e-mail, phone, bandwidth, repeat times, time zones, keys)
  are kept as the text of their line.
\<close>

record Attribute =
  Key :: string
  Value :: string

record Origin =
  Username :: string
  SessionID :: nat
  SessionVersion :: nat
  o_NetworkType :: string
  o_AddressType :: string
  UnicastAddress :: string

record ConnectionInformation =
  NetworkType :: string
  AddressType :: string
  Address :: "string option"

record MediaName =
  Media :: string
  Port :: nat
  PortRange :: "nat option"
  Protos :: "string list"
  Formats :: "string list"

record MediaDescription =
  MediaName :: MediaName
  MediaTitle :: "string option"
  m_ConnectionInformation :: "ConnectionInformation option"
  m_Bandwidth :: "string list"
  m_EncryptionKey :: "string option"
  m_Attributes :: "Attribute list"

record TimeDescription =
  StartTime :: nat
  StopTime :: nat
  RepeatTimes :: "string list"

record SessionDescription =
  Version :: nat
  Origin :: Origin
  SessionName :: string
  SessionInformation :: "string option"
  URI :: "string option"
  EmailAddress :: "string option"
  PhoneNumber :: "string option"
  ConnectionInformation :: "ConnectionInformation option"
  Bandwidth :: "string list"
  TimeDescriptions :: "TimeDescription list"
  TimeZones :: "string list"
  EncryptionKey :: "string option"
  Attributes :: "Attribute list"
  MediaDescriptions :: "MediaDescription list"

text \<open>Decimal digits of a number, as \<open>strconv\<close> writes them.\<close>

function itoa :: "nat \<Rightarrow> string" where
  "itoa n = (if n < 10 then [char_of (48 + n)] else itoa (n div 10) @ [char_of (48 + n mod 10)])"
  by pat_completeness auto
termination
  by (relation "measure id") auto

declare itoa.simps [simp del]

text \<open>
  \<open>Marshal\<close> of the library: the lines of the description in the order of RFC 8866,
  each ended by \<open>CR LF\<close>. An attribute is written \<open>a=key\<close>, followed by \<open>:value\<close>
  when the value is not empty.
\<close>

definition sdpLine :: "string \<Rightarrow> string \<Rightarrow> string" where
  "sdpLine key v = key @ v @ CRLF"

definition optLine :: "string \<Rightarrow> string option \<Rightarrow> string" where
  "optLine key v = (case v of None \<Rightarrow> [] | Some x \<Rightarrow> sdpLine key x)"

definition attributeString :: "Attribute \<Rightarrow> string" where
  "attributeString a = (if Value a \<noteq> [] then Key a @ '':'' @ Value a else Key a)"

definition originString :: "Origin \<Rightarrow> string" where
  "originString o' =
     strings_Join [Username o', itoa (SessionID o'), itoa (SessionVersion o'),
                   o_NetworkType o', o_AddressType o', UnicastAddress o'] '' ''"

definition connectionString :: "ConnectionInformation \<Rightarrow> string" where
  "connectionString c =
     strings_Join ([NetworkType c, AddressType c]
                   @ (case Address c of None \<Rightarrow> [] | Some a \<Rightarrow> [a])) '' ''"

definition mediaNameString :: "MediaName \<Rightarrow> string" where
  "mediaNameString m =
     strings_Join [Media m,
                   itoa (Port m) @ (case PortRange m of None \<Rightarrow> [] | Some r \<Rightarrow> ''/'' @ itoa r),
                   strings_Join (Protos m) ''/'',
                   strings_Join (Formats m) '' ''] '' ''"

definition marshalTime :: "TimeDescription \<Rightarrow> string" where
  "marshalTime td =
     sdpLine ''t='' (itoa (StartTime td) @ '' '' @ itoa (StopTime td))
     @ concat (map (sdpLine ''r='') (RepeatTimes td))"

definition marshalMedia :: "MediaDescription \<Rightarrow> string" where
  "marshalMedia md =
     sdpLine ''m='' (mediaNameString (MediaName md))
     @ optLine ''i='' (MediaTitle md)
     @ optLine ''c='' (map_option connectionString (m_ConnectionInformation md))
     @ concat (map (sdpLine ''b='') (m_Bandwidth md))
     @ optLine ''k='' (m_EncryptionKey md)
     @ concat (map (\<lambda>a. sdpLine ''a='' (attributeString a)) (m_Attributes md))"

definition marshalSession :: "SessionDescription \<Rightarrow> string" where
  "marshalSession d =
     sdpLine ''v='' (itoa (Version d))
     @ sdpLine ''o='' (originString (Origin d))
     @ sdpLine ''s='' (SessionName d)
     @ optLine ''i='' (SessionInformation d)
     @ optLine ''u='' (URI d)
     @ optLine ''e='' (EmailAddress d)
     @ optLine ''p='' (PhoneNumber d)
     @ optLine ''c='' (map_option connectionString (ConnectionInformation d))
     @ concat (map (sdpLine ''b='') (Bandwidth d))
     @ concat (map marshalTime (TimeDescriptions d))
     @ (if TimeZones d = [] then [] else sdpLine ''z='' (strings_Join (TimeZones d) '' ''))
     @ optLine ''k='' (EncryptionKey d)
     @ concat (map (\<lambda>a. sdpLine ''a='' (attributeString a)) (Attributes d))"

definition Marshal :: "SessionDescription \<Rightarrow> string" where
  "Marshal d = marshalSession d @ concat (map marshalMedia (MediaDescriptions d))"

subsection \<open>Addresses (package net)\<close>

text \<open>
  A \<open>net.IP\<close> is a slice of 4 or 16 bytes. \<open>To4\<close>, \<open>IsPrivate\<close>, \<open>IsLoopback\<close> and
  \<open>IsLinkLocalUnicast\<close> are the standard library's: an address has a 4-byte form when
  it has 4 bytes, or 16 bytes of which the first twelve are the IPv4-mapped prefix.
\<close>

type_synonym IP = "8 word list"

definition To4 :: "IP \<Rightarrow> IP option" where
  "To4 ip =
     (if length ip = 4 then Some ip
      else if length ip = 16 \<and> take 10 ip = replicate 10 0 \<and> ip ! 10 = 0xFF \<and> ip ! 11 = 0xFF
        then Some (drop 12 ip)
      else None)"

definition IsPrivate :: "IP \<Rightarrow> bool" where
  "IsPrivate ip =
     (case To4 ip of
        Some ip4 \<Rightarrow> ip4 ! 0 = 10
                     \<or> (ip4 ! 0 = 172 \<and> and (ip4 ! 1) 0xF0 = 16)
                     \<or> (ip4 ! 0 = 192 \<and> ip4 ! 1 = 168)
      | None \<Rightarrow> length ip = 16 \<and> and (ip ! 0) 0xFE = 0xFC)"

definition IsLoopback :: "IP \<Rightarrow> bool" where
  "IsLoopback ip =
     (case To4 ip of
        Some ip4 \<Rightarrow> ip4 ! 0 = 127
      | None \<Rightarrow> ip = replicate 15 0 @ [1])"

definition IsLinkLocalUnicast :: "IP \<Rightarrow> bool" where
  "IsLinkLocalUnicast ip =
     (case To4 ip of
        Some ip4 \<Rightarrow> ip4 ! 0 = 169 \<and> ip4 ! 1 = 254
      | None \<Rightarrow> length ip = 16 \<and> ip ! 0 = 0xFE \<and> and (ip ! 1) 0xC0 = 0x80)"

text \<open>\<open>isPrivateIP\<close> of sdp.go; a nil address is \<open>None\<close>.\<close>

definition isPrivateIP :: "IP option \<Rightarrow> bool" where
  "isPrivateIP ip =
     (case ip of None \<Rightarrow> False
      | Some a \<Rightarrow> IsPrivate a \<or> IsLoopback a \<or> IsLinkLocalUnicast a)"

text \<open>
  What the gateway takes from its libraries without looking inside: \<open>Unmarshal\<close> of
  the SDP library (an error text or the parsed description), \<open>net.ParseIP\<close>
  (\<open>None\<close> for nil) and \<open>path.Join\<close> of two elements. Every function below that
  reaches one of them takes this record.
\<close>

record Lib =
  Unmarshal :: "string \<Rightarrow> string + SessionDescription"
  ParseIP :: "string \<Rightarrow> IP option"
  PathJoin :: "string \<Rightarrow> string \<Rightarrow> string"

subsection \<open>Post-processing of the serialised answer\<close>

text \<open>The loop of \<open>filterPrivateIPs\<close>, with \<open>continue\<close> as the branch that appends nothing.\<close>

fun filterLines :: "Lib \<Rightarrow> string list \<Rightarrow> string list \<Rightarrow> string list" where
  "filterLines lib filtered [] = filtered"
| "filterLines lib filtered (line # rest) =
     (if strings_HasPrefix line ''a=end-of-candidates'' then filterLines lib filtered rest
      else if strings_HasPrefix line ''a=candidate:''
              \<and> (let parts = strings_Fields line
                  in length parts \<ge> 5
                     \<and> (let ip = ParseIP lib (parts ! 4)
                        in ip \<noteq> None \<and> (To4 (the ip) = None \<or> isPrivateIP ip)))
        then filterLines lib filtered rest
      else filterLines lib (filtered @ [line]) rest)"

definition filterPrivateIPs :: "Lib \<Rightarrow> string \<Rightarrow> string" where
  "filterPrivateIPs lib sdpStr = strings_Join (filterLines lib [] (strings_Split sdpStr CRLF)) CRLF"

fun trickleLines :: "bool \<Rightarrow> string list \<Rightarrow> string list \<Rightarrow> string list" where
  "trickleLines added result [] = result"
| "trickleLines added result (line # rest) =
     (if \<not> added \<and> strings_HasPrefix line ''a=ice-ufrag:''
      then trickleLines True (result @ [line, ''a=ice-options:trickle'']) rest
      else trickleLines added (result @ [line]) rest)"

definition addTrickleICE :: "string \<Rightarrow> string" where
  "addTrickleICE sdpStr =
     (if strings_Contains sdpStr ''a=ice-options:trickle'' then sdpStr
      else strings_Join (trickleLines False [] (strings_Split sdpStr CRLF)) CRLF)"

section \<open>The two answers (sdp.go)\<close>

subsection \<open>\<open>CreateAnswerForWowza\<close>\<close>

text \<open>The first loop: a session-level \<open>fingerprint\<close> is overwritten in place.\<close>

definition replaceSessionFingerprint :: "ICECredentials \<Rightarrow> Attribute list \<Rightarrow> Attribute list" where
  "replaceSessionFingerprint clientCreds attrs =
     map (\<lambda>attr. if Key attr = ''fingerprint'' \<and> Fingerprint clientCreds \<noteq> []
                  then \<lparr>Key = ''fingerprint'', Value = Fingerprint clientCreds\<rparr>
                  else attr) attrs"

text \<open>The \<open>switch\<close> over the attributes of one media section, with \<open>filtered\<close> carried along.\<close>

fun rebuildAttributes :: "ICECredentials \<Rightarrow> Attribute list \<Rightarrow> Attribute list \<Rightarrow> Attribute list" where
  "rebuildAttributes clientCreds filtered [] = filtered"
| "rebuildAttributes clientCreds filtered (attr # rest) =
     (if Key attr = ''ice-ufrag'' then
        (if IceUfrag clientCreds \<noteq> []
         then rebuildAttributes clientCreds
                (filtered @ [\<lparr>Key = ''ice-ufrag'', Value = IceUfrag clientCreds\<rparr>]) rest
         else rebuildAttributes clientCreds filtered rest)
      else if Key attr = ''ice-pwd'' then
        (if IcePwd clientCreds \<noteq> []
         then rebuildAttributes clientCreds
                (filtered @ [\<lparr>Key = ''ice-pwd'', Value = IcePwd clientCreds\<rparr>]) rest
         else rebuildAttributes clientCreds filtered rest)
      else if Key attr = ''fingerprint'' then
        (if Fingerprint clientCreds \<noteq> []
         then rebuildAttributes clientCreds
                (filtered @ [\<lparr>Key = ''fingerprint'', Value = Fingerprint clientCreds\<rparr>]) rest
         else rebuildAttributes clientCreds filtered rest)
      else if Key attr = ''setup'' then
        rebuildAttributes clientCreds (filtered @ [\<lparr>Key = ''setup'', Value = ''active''\<rparr>]) rest
      else if Key attr = ''sendrecv'' then
        rebuildAttributes clientCreds (filtered @ [\<lparr>Key = ''recvonly'', Value = []\<rparr>]) rest
      else if Key attr = ''candidate'' then
        rebuildAttributes clientCreds filtered rest
      else rebuildAttributes clientCreds (filtered @ [attr]) rest)"

definition mediaForWowza :: "ICECredentials \<Rightarrow> MediaDescription \<Rightarrow> MediaDescription" where
  "mediaForWowza clientCreds md =
     md\<lparr>m_Attributes :=
          rebuildAttributes clientCreds [] (m_Attributes md)
          @ map (\<lambda>cand. \<lparr>Key = ''candidate'', Value = cand\<rparr>) (Candidates clientCreds)\<rparr>"

text \<open>The description that \<open>CreateAnswerForWowza\<close> hands to \<open>Marshal\<close>.\<close>

definition answerDescForWowza :: "ICECredentials \<Rightarrow> SessionDescription \<Rightarrow> SessionDescription" where
  "answerDescForWowza clientCreds wowzaDesc =
     wowzaDesc\<lparr>Attributes := replaceSessionFingerprint clientCreds (Attributes wowzaDesc),
               MediaDescriptions := map (mediaForWowza clientCreds) (MediaDescriptions wowzaDesc)\<rparr>"

definition CreateAnswerForWowza :: "Lib \<Rightarrow> string \<Rightarrow> string \<Rightarrow> string + string" where
  "CreateAnswerForWowza lib wowzaOffer clientOffer =
     (case ExtractCredentials clientOffer of
        Inl err \<Rightarrow> Inl (''extract client credentials: '' @ err)
      | Inr clientCreds \<Rightarrow>
          (case Unmarshal lib wowzaOffer of
             Inl err \<Rightarrow> Inl (''parse wowza offer: '' @ err)
           | Inr wowzaDesc \<Rightarrow>
               Inr (addTrickleICE (filterPrivateIPs lib
                      (Marshal (answerDescForWowza clientCreds wowzaDesc))))))"

subsection \<open>\<open>CreateAnswerForClient\<close>\<close>

record WowzaICECandidate =
  Candidate :: string
  SDPMid :: "string option"
  SDPMLineIndex :: "16 word option"

text \<open>The map from media type to Wowza's section; a later section of a type replaces an earlier one.\<close>

definition wowzaMediaByType :: "MediaDescription list \<Rightarrow> (string \<rightharpoonup> MediaDescription)" where
  "wowzaMediaByType mds =
     foldl (\<lambda>m md. m(strings_ToLower (Media (MediaName md)) \<mapsto> md)) Map.empty mds"

definition codecKeys :: "string list" where
  "codecKeys = [''rtpmap'', ''fmtp'', ''rtcp-fb'', ''ssrc'', ''msid'', ''cliprect'',
                ''framesize'', ''control'']"

fun copyCodecAttributes :: "Attribute list \<Rightarrow> Attribute list \<Rightarrow> Attribute list" where
  "copyCodecAttributes attrs [] = attrs"
| "copyCodecAttributes attrs (attr # rest) =
     (if Key attr \<in> set codecKeys then copyCodecAttributes (attrs @ [attr]) rest
      else copyCodecAttributes attrs rest)"

text \<open>The loop over \<open>wowzaCandidates\<close> for the section at index \<open>i\<close>.\<close>

fun addCandidates :: "nat \<Rightarrow> Attribute list \<Rightarrow> WowzaICECandidate list \<Rightarrow> Attribute list" where
  "addCandidates i attrs [] = attrs"
| "addCandidates i attrs (c # rest) =
     (case SDPMLineIndex c of
        None \<Rightarrow> addCandidates i attrs rest
      | Some idx \<Rightarrow>
          if unat idx = i
          then addCandidates i
                 (attrs @ [\<lparr>Key = ''candidate'',
                            Value = strings_TrimPrefix (cleanWowzaCandidate (Candidate c))
                                      ''candidate:''\<rparr>]) rest
          else addCandidates i attrs rest)"

definition rejectedMedia :: "ICECredentials \<Rightarrow> string \<Rightarrow> MediaInfo \<Rightarrow> MediaDescription" where
  "rejectedMedia wowzaCreds mediaType clientMediaInfo =
     \<lparr>MediaName = \<lparr>Media = mediaType, Port = 0, PortRange = None,
                    Protos = [''UDP'', ''TLS'', ''RTP'', ''SAVPF''], Formats = [''0'']\<rparr>,
      MediaTitle = None, m_ConnectionInformation = None, m_Bandwidth = [],
      m_EncryptionKey = None,
      m_Attributes =
        [\<lparr>Key = ''mid'', Value = Mid clientMediaInfo\<rparr>,
         \<lparr>Key = ''ice-ufrag'', Value = IceUfrag wowzaCreds\<rparr>,
         \<lparr>Key = ''ice-pwd'', Value = IcePwd wowzaCreds\<rparr>,
         \<lparr>Key = ''fingerprint'', Value = Fingerprint wowzaCreds\<rparr>,
         \<lparr>Key = ''setup'', Value = ''passive''\<rparr>,
         \<lparr>Key = ''inactive'', Value = []\<rparr>]\<rparr>"

definition acceptedMedia ::
  "ICECredentials \<Rightarrow> MediaDescription \<Rightarrow> WowzaICECandidate list \<Rightarrow> nat \<Rightarrow> MediaInfo
     \<Rightarrow> MediaDescription" where
  "acceptedMedia wowzaCreds wowzaMD wowzaCandidates i clientMediaInfo =
     \<lparr>MediaName = \<lparr>Media = Media (MediaName wowzaMD), Port = 9, PortRange = None,
                    Protos = [''UDP'', ''TLS'', ''RTP'', ''SAVPF''],
                    Formats = Formats (MediaName wowzaMD)\<rparr>,
      MediaTitle = None,
      m_ConnectionInformation =
        Some \<lparr>NetworkType = ''IN'', AddressType = ''IP4'', Address = Some ''0.0.0.0''\<rparr>,
      m_Bandwidth = [], m_EncryptionKey = None,
      m_Attributes =
        addCandidates i
          (copyCodecAttributes [] (m_Attributes wowzaMD)
           @ [\<lparr>Key = ''ice-ufrag'', Value = IceUfrag wowzaCreds\<rparr>,
              \<lparr>Key = ''ice-pwd'', Value = IcePwd wowzaCreds\<rparr>,
              \<lparr>Key = ''fingerprint'', Value = Fingerprint wowzaCreds\<rparr>,
              \<lparr>Key = ''setup'', Value = ''passive''\<rparr>,
              \<lparr>Key = ''mid'', Value = Mid clientMediaInfo\<rparr>,
              \<lparr>Key = ''sendonly'', Value = []\<rparr>,
              \<lparr>Key = ''rtcp-mux'', Value = []\<rparr>])
          wowzaCandidates\<rparr>"

text \<open>The loop over \<open>clientMedia\<close>, with its index \<open>i\<close>.\<close>

fun clientSections ::
  "ICECredentials \<Rightarrow> (string \<rightharpoonup> MediaDescription) \<Rightarrow> WowzaICECandidate list \<Rightarrow> nat
     \<Rightarrow> MediaInfo list \<Rightarrow> MediaDescription list" where
  "clientSections wowzaCreds byType wowzaCandidates i [] = []"
| "clientSections wowzaCreds byType wowzaCandidates i (clientMediaInfo # rest) =
     (let mediaType = strings_ToLower (Type clientMediaInfo)
      in (case byType mediaType of
            None \<Rightarrow> rejectedMedia wowzaCreds mediaType clientMediaInfo
          | Some wowzaMD \<Rightarrow>
              acceptedMedia wowzaCreds wowzaMD wowzaCandidates i clientMediaInfo))
     # clientSections wowzaCreds byType wowzaCandidates (Suc i) rest"

text \<open>The description that \<open>CreateAnswerForClient\<close> hands to \<open>Marshal\<close>.\<close>

definition answerDescForClient ::
  "ICECredentials \<Rightarrow> SessionDescription \<Rightarrow> MediaInfo list \<Rightarrow> WowzaICECandidate list
     \<Rightarrow> SessionDescription" where
  "answerDescForClient wowzaCreds wowzaDesc clientMedia wowzaCandidates =
     \<lparr>Version = 0,
      Origin = \<lparr>Username = ''-'', SessionID = SessionID (Origin wowzaDesc),
                 SessionVersion = SessionVersion (Origin wowzaDesc),
                 o_NetworkType = ''IN'', o_AddressType = ''IP4'',
                 UnicastAddress = ''127.0.0.1''\<rparr>,
      SessionName = ''-'',
      SessionInformation = None, URI = None, EmailAddress = None, PhoneNumber = None,
      ConnectionInformation = None, Bandwidth = [],
      TimeDescriptions = [\<lparr>StartTime = 0, StopTime = 0, RepeatTimes = []\<rparr>],
      TimeZones = [], EncryptionKey = None,
      Attributes =
        [\<lparr>Key = ''group'', Value = ''BUNDLE '' @ strings_Join (map Mid clientMedia) '' ''\<rparr>,
         \<lparr>Key = ''msid-semantic'', Value = ''WMS *''\<rparr>,
         \<lparr>Key = ''fingerprint'', Value = Fingerprint wowzaCreds\<rparr>],
      MediaDescriptions =
        clientSections wowzaCreds (wowzaMediaByType (MediaDescriptions wowzaDesc))
          wowzaCandidates 0 clientMedia\<rparr>"

definition CreateAnswerForClient ::
  "Lib \<Rightarrow> string \<Rightarrow> string \<Rightarrow> WowzaICECandidate list \<Rightarrow> string + string" where
  "CreateAnswerForClient lib wowzaOffer clientOffer wowzaCandidates =
     (let clientMedia = ExtractMediaOrder clientOffer
      in case ExtractCredentials wowzaOffer of
           Inl err \<Rightarrow> Inl (''extract wowza credentials: '' @ err)
         | Inr wowzaCreds \<Rightarrow>
             if Fingerprint wowzaCreds = [] then Inl ''wowza offer missing fingerprint''
             else (case Unmarshal lib wowzaOffer of
                     Inl err \<Rightarrow> Inl (''parse wowza offer: '' @ err)
                   | Inr wowzaDesc \<Rightarrow>
                       Inr (Marshal (answerDescForClient wowzaCreds wowzaDesc clientMedia
                                       wowzaCandidates))))"

section \<open>Sessions (session.go)\<close>

record WowzaStreamInfo =
  ApplicationName :: string
  StreamName :: string
  StreamSessionID :: string

record WowzaSDP =
  SDP :: string
  SDPType :: string

record WowzaResponse =
  Status :: int
  StatusDescription :: string
  Direction :: string
  Command :: string
  StreamInfo :: WowzaStreamInfo
  ResponseSDP :: "WowzaSDP option"
  ICECandidates :: "WowzaICECandidate list"

text \<open>
  The fields of \<open>Session\<close> that the signaling reads or writes. \<open>onStop\<close> records
  whether a stop callback is registered; \<open>stopOnceDone\<close> is the \<open>done\<close> flag of the
  \<open>sync.Once\<close>.
\<close>

record Session =
  s_id :: string
  appName :: string
  streamName :: string
  wsURL :: string
  wowzaSessionID :: string
  stopped :: bool
  onStop :: bool
  stopOnceDone :: bool

definition NewSession :: "string \<Rightarrow> string \<Rightarrow> string \<Rightarrow> string \<Rightarrow> Session" where
  "NewSession ident app stream url =
     \<lparr>s_id = ident, appName = app, streamName = stream, wsURL = url,
      wowzaSessionID = [], stopped = False, onStop = False, stopOnceDone = False\<rparr>"

definition SetStopCallback :: "Session \<Rightarrow> Session" where
  "SetStopCallback s = s\<lparr>onStop := True\<rparr>"

text \<open>
  What the WebSocket does during one \<open>Negotiate\<close>: the outcome of the dial, of the two
  writes (\<open>None\<close> for success, else the error text) and of the two reads (an error text
  or the decoded frame).
\<close>

record Peer =
  Dial :: "string option"
  WriteGetOffer :: "string option"
  ReadOffer :: "string + WowzaResponse"
  WriteSendResponse :: "string option"
  ReadCandidates :: "string + WowzaResponse"

text \<open>\<open>Negotiate\<close> returns the answer or the text of the error, and the session as it leaves it.\<close>

definition Negotiate :: "Lib \<Rightarrow> Peer \<Rightarrow> Session \<Rightarrow> string \<Rightarrow> (string + string) \<times> Session" where
  "Negotiate lib peer s clientOffer =
     (case Dial peer of
        Some err \<Rightarrow> (Inl (''websocket dial: '' @ err), s)
      | None \<Rightarrow>
     (case WriteGetOffer peer of
        Some err \<Rightarrow> (Inl (''send getOffer: '' @ err), s)
      | None \<Rightarrow>
     (case ReadOffer peer of
        Inl err \<Rightarrow> (Inl (''read getOffer response: '' @ err), s)
      | Inr offerResp \<Rightarrow>
     if Status offerResp < 200 \<or> Status offerResp \<ge> 300
       then (Inl (''wowza error: '' @ StatusDescription offerResp), s)
     else (case ResponseSDP offerResp of
        None \<Rightarrow> (Inl ''wowza returned empty SDP offer'', s)
      | Some offerSDP \<Rightarrow>
     if SDP offerSDP = [] then (Inl ''wowza returned empty SDP offer'', s)
     else (let s' = s\<lparr>wowzaSessionID := StreamSessionID (StreamInfo offerResp)\<rparr>
      in (case CreateAnswerForWowza lib (SDP offerSDP) clientOffer of
        Inl err \<Rightarrow> (Inl (''create answer for wowza: '' @ err), s')
      | Inr answerForWowza \<Rightarrow>
     (case WriteSendResponse peer of
        Some err \<Rightarrow> (Inl (''send sendResponse: '' @ err), s')
      | None \<Rightarrow>
     (case ReadCandidates peer of
        Inl err \<Rightarrow> (Inl (''read sendResponse response: '' @ err), s')
      | Inr candidatesResp \<Rightarrow>
     if Status candidatesResp < 200 \<or> Status candidatesResp \<ge> 300
       then (Inl (''wowza error: '' @ StatusDescription candidatesResp), s')
     else (case CreateAnswerForClient lib (SDP offerSDP) clientOffer
                  (ICECandidates candidatesResp) of
        Inl err \<Rightarrow> (Inl (''create answer for client: '' @ err), s')
      | Inr answerForClient \<Rightarrow> (Inr answerForClient, s'))))))))))"

subsection \<open>\<open>Stop\<close> under concurrent callers\<close>

text \<open>
  \<open>Stop\<close> runs its body through \<open>sync.Once\<close>. A goroutine inside \<open>stopOnce.Do\<close> is at
  one of these points: before the first load of \<open>done\<close>; waiting for the mutex of the
  \<open>Once\<close>; and, holding that mutex, before the second load of \<open>done\<close>, before
  \<open>s.stopped = true\<close>, before the callback, before the deferred \<open>done.Store(1)\<close>, before
  the deferred unlock. The state counts the goroutines that have not yet taken the
  mutex, records the point of the one that holds it (\<open>None\<close> when it is free), counts
  the calls that have returned, and lists the arguments the callback was invoked with.
\<close>

datatype OncePoint = CheckDone | SetStopped | InvokeCallback | StoreDone | Unlock

record StopState =
  session :: Session
  entering :: nat
  waiting :: nat
  holder :: "OncePoint option"
  returned :: nat
  callbackCalls :: "string list"

inductive stopStep :: "StopState \<Rightarrow> StopState \<Rightarrow> bool" where
  call: "stopStep st (st\<lparr>entering := Suc (entering st)\<rparr>)"
| fastDone:
    "entering st = Suc n \<Longrightarrow> stopOnceDone (session st) \<Longrightarrow>
     stopStep st (st\<lparr>entering := n, returned := Suc (returned st)\<rparr>)"
| fastSlow:
    "entering st = Suc n \<Longrightarrow> \<not> stopOnceDone (session st) \<Longrightarrow>
     stopStep st (st\<lparr>entering := n, waiting := Suc (waiting st)\<rparr>)"
| lock:
    "waiting st = Suc n \<Longrightarrow> holder st = None \<Longrightarrow>
     stopStep st (st\<lparr>waiting := n, holder := Some CheckDone\<rparr>)"
| slowDone:
    "holder st = Some CheckDone \<Longrightarrow> stopOnceDone (session st) \<Longrightarrow>
     stopStep st (st\<lparr>holder := Some Unlock\<rparr>)"
| slowRun:
    "holder st = Some CheckDone \<Longrightarrow> \<not> stopOnceDone (session st) \<Longrightarrow>
     stopStep st (st\<lparr>holder := Some SetStopped\<rparr>)"
| setStopped:
    "holder st = Some SetStopped \<Longrightarrow>
     stopStep st (st\<lparr>session := (session st)\<lparr>stopped := True\<rparr>,
                    holder := Some InvokeCallback\<rparr>)"
| callback:
    "holder st = Some InvokeCallback \<Longrightarrow> onStop (session st) \<Longrightarrow>
     stopStep st (st\<lparr>callbackCalls := callbackCalls st @ [s_id (session st)],
                    holder := Some StoreDone\<rparr>)"
| noCallback:
    "holder st = Some InvokeCallback \<Longrightarrow> \<not> onStop (session st) \<Longrightarrow>
     stopStep st (st\<lparr>holder := Some StoreDone\<rparr>)"
| storeDone:
    "holder st = Some StoreDone \<Longrightarrow>
     stopStep st (st\<lparr>session := (session st)\<lparr>stopOnceDone := True\<rparr>,
                    holder := Some Unlock\<rparr>)"
| unlock:
    "holder st = Some Unlock \<Longrightarrow>
     stopStep st (st\<lparr>holder := None, returned := Suc (returned st)\<rparr>)"

text \<open>A session on which no \<open>Stop\<close> has been called yet.\<close>

definition stopInit :: "Session \<Rightarrow> StopState" where
  "stopInit s =
     \<lparr>session = s\<lparr>stopped := False, stopOnceDone := False\<rparr>,
      entering = 0, waiting = 0, holder = None, returned = 0, callbackCalls = []\<rparr>"

definition stopReachable :: "Session \<Rightarrow> StopState \<Rightarrow> bool" where
  "stopReachable s st = stopStep\<^sup>*\<^sup>* (stopInit s) st"

text \<open>
  One call of \<open>Stop\<close> that runs to its end with no other goroutine in between, on the
  session and the list of callback invocations so far.
\<close>

definition Stop :: "Session \<times> string list \<Rightarrow> Session \<times> string list" where
  "Stop sc =
     (if stopOnceDone (fst sc) then sc
      else ((fst sc)\<lparr>stopped := True, stopOnceDone := True\<rparr>,
            snd sc @ (if onStop (fst sc) then [s_id (fst sc)] else [])))"

section \<open>The session manager and the router\<close>

record Manager =
  sessions :: "string \<rightharpoonup> Session"

text \<open>
  \<open>Manager.Create\<close>; the fresh UUID is an argument. It returns a nil error on every
  path; the result type keeps it.
\<close>

definition Create ::
  "Manager \<Rightarrow> string \<Rightarrow> string \<Rightarrow> string \<Rightarrow> string \<Rightarrow> string + (string \<times> Session \<times> Manager)" where
  "Create m uuid app stream url =
     (let ident = ''session-'' @ uuid;
          sess = SetStopCallback (NewSession ident app stream url)
      in Inr (ident, sess, m\<lparr>sessions := (sessions m)(ident \<mapsto> sess)\<rparr>))"

text \<open>
  \<open>Manager.Remove\<close> deletes the id under the lock and stops the session in a goroutine
  of its own; the stop callback of that goroutine deletes the same id once more.
\<close>

definition Remove :: "Manager \<Rightarrow> string \<Rightarrow> Manager" where
  "Remove m ident = m\<lparr>sessions := (sessions m)(ident := None)\<rparr>"

record Request =
  Method :: string
  Path :: string
  ContentType :: string
  BodyData :: string
  BodyError :: "string option"

record Response =
  StatusCode :: nat
  Header :: "string \<rightharpoonup> string"
  Body :: string

text \<open>
  \<open>io.ReadAll(io.LimitReader(r.Body, n))\<close>: the body delivers its data and then ends,
  or fails with \<open>BodyError\<close>. The limited reader ends after \<open>n\<close> bytes without reading on.
\<close>

definition readLimited :: "Request \<Rightarrow> nat \<Rightarrow> string + string" where
  "readLimited r n =
     (if length (BodyData r) \<ge> n then Inr (take n (BodyData r))
      else (case BodyError r of None \<Rightarrow> Inr (BodyData r) | Some err \<Rightarrow> Inl err))"

text \<open>\<open>http.Error\<close>: a plain-text reply, the message followed by a line feed.\<close>

definition http_Error :: "Response \<Rightarrow> string \<Rightarrow> nat \<Rightarrow> Response" where
  "http_Error w msg code =
     w\<lparr>StatusCode := code,
       Header := (Header w)(''Content-Length'' := None,
                            ''Content-Type'' \<mapsto> ''text/plain; charset=utf-8'',
                            ''X-Content-Type-Options'' \<mapsto> ''nosniff''),
       Body := Body w @ msg @ LF\<rparr>"

definition handleCreate ::
  "Lib \<Rightarrow> Peer \<Rightarrow> string \<Rightarrow> Manager \<Rightarrow> Response \<Rightarrow> Request \<Rightarrow> string \<Rightarrow> string \<Rightarrow> string
     \<Rightarrow> Response \<times> Manager" where
  "handleCreate lib peer uuid mgr w r app stream url =
     (case readLimited r (64 * 1024) of
        Inl err \<Rightarrow> (http_Error w ''failed to read offer'' 400, mgr)
      | Inr offer \<Rightarrow>
     if offer = [] then (http_Error w ''empty SDP offer'' 400, mgr)
     else if \<not> strings_Contains (ContentType r) ''application/sdp''
       then (http_Error w ''Content-Type must be application/sdp'' 415, mgr)
     else (case Create mgr uuid app stream url of
        Inl err \<Rightarrow> (http_Error w ''failed to create session'' 500, mgr)
      | Inr (sessionID, sess, mgr1) \<Rightarrow>
     (case Negotiate lib peer sess offer of
        (Inl err, sess') \<Rightarrow>
          (http_Error w (if strings_Contains err ''wowza error'' then err
                         else ''signaling failed'') 502,
           Remove mgr1 sessionID)
      | (Inr answer, sess') \<Rightarrow>
          (let resourcePath = PathJoin lib (Path r) sessionID
           in (w\<lparr>StatusCode := 201,
                  Header := (Header w)(''Content-Type'' \<mapsto> ''application/sdp'',
                                       ''Location'' \<mapsto> resourcePath,
                                       ''Accept-Patch'' \<mapsto> ''application/trickle-ice-sdpfrag'',
                                       ''Link'' \<mapsto> ''<'' @ resourcePath @ ''>; rel=''
                                                   @ [CHR 0x22] @ ''ice-server'' @ [CHR 0x22]),
                  Body := Body w @ answer\<rparr>,
               mgr1\<lparr>sessions := (sessions mgr1)(sessionID \<mapsto> sess')\<rparr>)))))"

definition writeWHEPOptions :: "Response \<Rightarrow> Response" where
  "writeWHEPOptions w =
     w\<lparr>StatusCode := 204,
       Header := (Header w)(''Accept-Post'' \<mapsto> ''application/sdp'',
                            ''Accept-Patch'' \<mapsto> ''application/trickle-ice-sdpfrag'')\<rparr>"

text \<open>
  \<open>withCORS\<close> wraps the whole multiplexer (\<open>Handler: withLogging(withCORS(mux))\<close>);
  \<open>next\<close> is the wrapped handler, and the logging wrapper leaves the response alone.
\<close>

definition withCORS ::
  "(Response \<times> Manager \<Rightarrow> Request \<Rightarrow> Response \<times> Manager) \<Rightarrow> Response \<times> Manager \<Rightarrow> Request
     \<Rightarrow> Response \<times> Manager" where
  "withCORS next wm r =
     (let w = fst wm;
          w1 = w\<lparr>Header := (Header w)
                  (''Access-Control-Allow-Origin'' \<mapsto> ''*'',
                   ''Access-Control-Allow-Methods'' \<mapsto> ''GET, POST, PATCH, DELETE, OPTIONS'',
                   ''Access-Control-Allow-Headers'' \<mapsto> ''Content-Type, Authorization'',
                   ''Access-Control-Expose-Headers'' \<mapsto> ''Location, Link, Accept-Patch'')\<rparr>
      in if Method r = ''OPTIONS'' then (w1\<lparr>StatusCode := 204\<rparr>, snd wm)
         else next (w1, snd wm) r)"

text \<open>The response writer before the handler runs: no header set, nothing written.\<close>

definition newResponse :: Response where
  "newResponse = \<lparr>StatusCode = 200, Header = Map.empty, Body = []\<rparr>"

text \<open>
  The \<open>switch r.Method\<close> that ends \<open>handleWHEP\<close> and \<open>handleWHEPCloud\<close>, reached
  once the path has been parsed into application, stream and WebSocket URL.
\<close>

definition methodSwitch ::
  "Lib \<Rightarrow> Peer \<Rightarrow> string \<Rightarrow> string \<Rightarrow> string \<Rightarrow> string \<Rightarrow> Response \<times> Manager \<Rightarrow> Request
     \<Rightarrow> Response \<times> Manager" where
  "methodSwitch lib peer uuid app stream url wm r =
     (if Method r = ''POST'' then handleCreate lib peer uuid (snd wm) (fst wm) r app stream url
      else if Method r = ''OPTIONS'' then (writeWHEPOptions (fst wm), snd wm)
      else (http_Error (fst wm) ''method not allowed'' 405, snd wm))"

section \<open>Scenario data\<close>

text \<open>
  Concrete inputs for the scenarios: a client offer with the mids \<open>video\<close> and \<open>audio\<close>
  and two candidates, a Wowza offer with the mids \<open>0\<close> and \<open>1\<close> together with its parsed
  form, a Wowza offer that carries its ICE credentials at the session level, and the
  results of the library functions on the strings that occur in them.
\<close>

definition sdpText :: "string list \<Rightarrow> string" where
  "sdpText ls = concat (map (\<lambda>l. l @ CRLF) ls)"

definition scenarioClientOffer :: string where
  "scenarioClientOffer = sdpText
     [''v=0'', ''o=- 1 2 IN IP4 127.0.0.1'', ''s=-'', ''t=0 0'',
      ''m=video 9 UDP/TLS/RTP/SAVPF 97'',
      ''a=mid:video'', ''a=ice-ufrag:cufrag'', ''a=ice-pwd:cpwd'',
      ''a=fingerprint:sha-256 CC'', ''a=setup:actpass'', ''a=recvonly'',
      ''a=candidate:1 1 UDP 100 10.0.0.1 9 typ host'',
      ''a=candidate:2 1 UDP 100 93.184.216.34 9 typ host'',
      ''m=audio 9 UDP/TLS/RTP/SAVPF 96'',
      ''a=mid:audio'', ''a=recvonly'']"

definition scenarioWowzaOffer :: string where
  "scenarioWowzaOffer = sdpText
     [''v=0'', ''o=- 7 2 IN IP4 127.0.0.1'', ''s=-'', ''t=0 0'',
      ''a=fingerprint:sha-256 AA'',
      ''m=video 9 UDP/TLS/RTP/SAVPF 97'',
      ''a=rtpmap:97 H264/90000'', ''a=mid:0'', ''a=ice-ufrag:wufrag'', ''a=ice-pwd:wpwd'',
      ''a=fingerprint:sha-256 AA'', ''a=setup:actpass'', ''a=sendrecv'',
      ''a=candidate:9 1 UDP 50 203.0.113.7 5000 typ host'', ''a=end-of-candidates'',
      ''m=audio 9 UDP/TLS/RTP/SAVPF 96'',
      ''a=rtpmap:96 opus/48000/2'', ''a=mid:1'', ''a=ice-ufrag:wufrag'', ''a=ice-pwd:wpwd'',
      ''a=fingerprint:sha-256 AA'', ''a=setup:actpass'', ''a=sendrecv'']"

definition scenarioOrigin :: Origin where
  "scenarioOrigin =
     \<lparr>Username = ''-'', SessionID = 7, SessionVersion = 2, o_NetworkType = ''IN'',
      o_AddressType = ''IP4'', UnicastAddress = ''127.0.0.1''\<rparr>"

definition scenarioMedia :: "string \<Rightarrow> string \<Rightarrow> Attribute list \<Rightarrow> MediaDescription" where
  "scenarioMedia kind fmt attrs =
     \<lparr>MediaName = \<lparr>Media = kind, Port = 9, PortRange = None,
                    Protos = [''UDP'', ''TLS'', ''RTP'', ''SAVPF''], Formats = [fmt]\<rparr>,
      MediaTitle = None, m_ConnectionInformation = None, m_Bandwidth = [],
      m_EncryptionKey = None, m_Attributes = attrs\<rparr>"

definition scenarioSession :: "Attribute list \<Rightarrow> MediaDescription list \<Rightarrow> SessionDescription" where
  "scenarioSession attrs mds =
     \<lparr>Version = 0, Origin = scenarioOrigin, SessionName = ''-'',
      SessionInformation = None, URI = None, EmailAddress = None, PhoneNumber = None,
      ConnectionInformation = None, Bandwidth = [],
      TimeDescriptions = [\<lparr>StartTime = 0, StopTime = 0, RepeatTimes = []\<rparr>],
      TimeZones = [], EncryptionKey = None, Attributes = attrs, MediaDescriptions = mds\<rparr>"

definition scenarioWowzaDesc :: SessionDescription where
  "scenarioWowzaDesc = scenarioSession
     [\<lparr>Key = ''fingerprint'', Value = ''sha-256 AA''\<rparr>]
     [scenarioMedia ''video'' ''97''
        [\<lparr>Key = ''rtpmap'', Value = ''97 H264/90000''\<rparr>,
         \<lparr>Key = ''mid'', Value = ''0''\<rparr>,
         \<lparr>Key = ''ice-ufrag'', Value = ''wufrag''\<rparr>,
         \<lparr>Key = ''ice-pwd'', Value = ''wpwd''\<rparr>,
         \<lparr>Key = ''fingerprint'', Value = ''sha-256 AA''\<rparr>,
         \<lparr>Key = ''setup'', Value = ''actpass''\<rparr>,
         \<lparr>Key = ''sendrecv'', Value = []\<rparr>,
         \<lparr>Key = ''candidate'', Value = ''9 1 UDP 50 203.0.113.7 5000 typ host''\<rparr>,
         \<lparr>Key = ''end-of-candidates'', Value = []\<rparr>],
      scenarioMedia ''audio'' ''96''
        [\<lparr>Key = ''rtpmap'', Value = ''96 opus/48000/2''\<rparr>,
         \<lparr>Key = ''mid'', Value = ''1''\<rparr>,
         \<lparr>Key = ''ice-ufrag'', Value = ''wufrag''\<rparr>,
         \<lparr>Key = ''ice-pwd'', Value = ''wpwd''\<rparr>,
         \<lparr>Key = ''fingerprint'', Value = ''sha-256 AA''\<rparr>,
         \<lparr>Key = ''setup'', Value = ''actpass''\<rparr>,
         \<lparr>Key = ''sendrecv'', Value = []\<rparr>]]"

definition sessionLevelOffer :: string where
  "sessionLevelOffer = sdpText
     [''v=0'', ''o=- 7 2 IN IP4 127.0.0.1'', ''s=-'', ''t=0 0'',
      ''a=ice-ufrag:wufrag'', ''a=ice-pwd:wpwd'', ''a=fingerprint:sha-256 AA'',
      ''m=video 9 UDP/TLS/RTP/SAVPF 97'',
      ''a=mid:0'', ''a=setup:actpass'']"

definition sessionLevelDesc :: SessionDescription where
  "sessionLevelDesc = scenarioSession
     [\<lparr>Key = ''ice-ufrag'', Value = ''wufrag''\<rparr>,
      \<lparr>Key = ''ice-pwd'', Value = ''wpwd''\<rparr>,
      \<lparr>Key = ''fingerprint'', Value = ''sha-256 AA''\<rparr>]
     [scenarioMedia ''video'' ''97''
        [\<lparr>Key = ''mid'', Value = ''0''\<rparr>,
         \<lparr>Key = ''setup'', Value = ''actpass''\<rparr>]]"

text \<open>\<open>net.ParseIP\<close> returns the 16-byte form, an IPv4 address behind the mapped prefix.\<close>

definition mapped4 :: "8 word \<Rightarrow> 8 word \<Rightarrow> 8 word \<Rightarrow> 8 word \<Rightarrow> IP" where
  "mapped4 a b c d = replicate 10 0 @ [0xFF, 0xFF, a, b, c, d]"

definition scenarioLib :: Lib where
  "scenarioLib =
     \<lparr>Unmarshal = (\<lambda>s. if s = scenarioWowzaOffer then Inr scenarioWowzaDesc
                        else if s = sessionLevelOffer then Inr sessionLevelDesc
                        else Inl ''EOF''),
      ParseIP = (\<lambda>s. if s = ''10.0.0.1'' then Some (mapped4 10 0 0 1)
                      else if s = ''93.184.216.34'' then Some (mapped4 93 184 216 34)
                      else if s = ''203.0.113.7'' then Some (mapped4 203 0 113 7)
                      else if s = ''1.2.3.4'' then Some (mapped4 1 2 3 4)
                      else if s = ''fe80::1'' then Some ([0xFE, 0x80] @ replicate 13 0 @ [1])
                      else None),
      PathJoin = (\<lambda>a b. a @ ''/'' @ b)\<rparr>"

definition emptyStreamInfo :: WowzaStreamInfo where
  "emptyStreamInfo = \<lparr>ApplicationName = [], StreamName = [], StreamSessionID = []\<rparr>"

text \<open>Scenario S4: Wowza answers \<open>getOffer\<close> with status 404.\<close>

definition notFoundPeer :: Peer where
  "notFoundPeer =
     \<lparr>Dial = None, WriteGetOffer = None,
      ReadOffer = Inr \<lparr>Status = 404, StatusDescription = ''stream not found'',
                       Direction = [], Command = [], StreamInfo = emptyStreamInfo,
                       ResponseSDP = None, ICECandidates = []\<rparr>,
      WriteSendResponse = None, ReadCandidates = Inl ''EOF''\<rparr>"

text \<open>Wowza sends its offer and then answers \<open>sendResponse\<close> with status 500.\<close>

definition lateErrorPeer :: Peer where
  "lateErrorPeer =
     \<lparr>Dial = None, WriteGetOffer = None,
      ReadOffer = Inr \<lparr>Status = 200, StatusDescription = ''OK'',
                       Direction = ''play'', Command = ''getOffer'',
                       StreamInfo = \<lparr>ApplicationName = ''live'', StreamName = ''demo'',
                                      StreamSessionID = ''42''\<rparr>,
                       ResponseSDP = Some \<lparr>SDP = scenarioWowzaOffer, SDPType = ''offer''\<rparr>,
                       ICECandidates = []\<rparr>,
      WriteSendResponse = None,
      ReadCandidates = Inr \<lparr>Status = 500, StatusDescription = ''internal error'',
                            Direction = [], Command = [], StreamInfo = emptyStreamInfo,
                            ResponseSDP = None, ICECandidates = []\<rparr>\<rparr>"

text \<open>The WebSocket dial fails.\<close>

definition refusedPeer :: Peer where
  "refusedPeer =
     \<lparr>Dial = Some ''connection refused'', WriteGetOffer = None, ReadOffer = Inl ''EOF'',
      WriteSendResponse = None, ReadCandidates = Inl ''EOF''\<rparr>"

text \<open>The read after \<open>getOffer\<close> fails on a close frame whose reason Wowza chose.\<close>

definition closedPeer :: Peer where
  "closedPeer =
     \<lparr>Dial = None, WriteGetOffer = None,
      ReadOffer = Inl ''websocket: close 1011 (internal server error): wowza error'',
      WriteSendResponse = None, ReadCandidates = Inl ''EOF''\<rparr>"

definition emptyManager :: Manager where
  "emptyManager = \<lparr>sessions = Map.empty\<rparr>"

definition postRequest :: "string \<Rightarrow> string \<Rightarrow> Request" where
  "postRequest ctype body =
     \<lparr>Method = ''POST'', Path = ''/whep/h264/live/demo'', ContentType = ctype,
      BodyData = body, BodyError = None\<rparr>"

definition optionsRequest :: Request where
  "optionsRequest =
     \<lparr>Method = ''OPTIONS'', Path = ''/whep/h264/live/demo'', ContentType = [],
      BodyData = [], BodyError = None\<rparr>"

text \<open>The answer for Wowza that the two scenario offers give.\<close>

definition scenarioAnswerForWowza :: string where
  "scenarioAnswerForWowza = sdpText
     [''v=0'', ''o=- 7 2 IN IP4 127.0.0.1'', ''s=-'', ''t=0 0'',
      ''a=fingerprint:sha-256 CC'',
      ''m=video 9 UDP/TLS/RTP/SAVPF 97'',
      ''a=rtpmap:97 H264/90000'', ''a=mid:0'', ''a=ice-ufrag:cufrag'',
      ''a=ice-options:trickle'', ''a=ice-pwd:cpwd'',
      ''a=fingerprint:sha-256 CC'', ''a=setup:active'', ''a=recvonly'',
      ''a=candidate:candidate:2 1 UDP 100 93.184.216.34 9 typ host'',
      ''m=audio 9 UDP/TLS/RTP/SAVPF 96'',
      ''a=rtpmap:96 opus/48000/2'', ''a=mid:1'', ''a=ice-ufrag:cufrag'', ''a=ice-pwd:cpwd'',
      ''a=fingerprint:sha-256 CC'', ''a=setup:active'', ''a=recvonly'',
      ''a=candidate:candidate:2 1 UDP 100 93.184.216.34 9 typ host'']"

text \<open>Scenario S1: the candidates Wowza returns, one of them without a line index.\<close>

definition scenarioCandidates :: "WowzaICECandidate list" where
  "scenarioCandidates =
     [\<lparr>Candidate = ''candidate:1 1 UDP 2130706431 1.2.3.4 9 typ host'', SDPMid = None,
       SDPMLineIndex = Some 0\<rparr>,
      \<lparr>Candidate = ''candidate:2 1 TCP 5 1.2.3.4 9 typ host generation 0'', SDPMid = None,
       SDPMLineIndex = None\<rparr>]"

definition scenarioWowzaCreds :: ICECredentials where
  "scenarioWowzaCreds =
     \<lparr>IceUfrag = ''wufrag'', IcePwd = ''wpwd'', Fingerprint = ''sha-256 AA'',
      Setup = ''actpass'', Candidates = [''candidate:9 1 UDP 50 203.0.113.7 5000 typ host'']\<rparr>"


definition scenarioAnswerForClient :: string where
  "scenarioAnswerForClient = sdpText
     [''v=0'', ''o=- 7 2 IN IP4 127.0.0.1'', ''s=-'', ''t=0 0'',
      ''a=group:BUNDLE video audio'', ''a=msid-semantic:WMS *'', ''a=fingerprint:sha-256 AA'',
      ''m=video 9 UDP/TLS/RTP/SAVPF 97'', ''c=IN IP4 0.0.0.0'',
      ''a=rtpmap:97 H264/90000'', ''a=ice-ufrag:wufrag'', ''a=ice-pwd:wpwd'',
      ''a=fingerprint:sha-256 AA'', ''a=setup:passive'', ''a=mid:video'', ''a=sendonly'',
      ''a=rtcp-mux'', ''a=candidate:1 1 UDP 2130706431 1.2.3.4 9 typ host'',
      ''m=audio 9 UDP/TLS/RTP/SAVPF 96'', ''c=IN IP4 0.0.0.0'',
      ''a=rtpmap:96 opus/48000/2'', ''a=ice-ufrag:wufrag'', ''a=ice-pwd:wpwd'',
      ''a=fingerprint:sha-256 AA'', ''a=setup:passive'', ''a=mid:audio'', ''a=sendonly'',
      ''a=rtcp-mux'']"

text \<open>The answer for Wowza when its offer carries the credentials at the session level.\<close>

definition sessionLevelAnswer :: string where
  "sessionLevelAnswer = sdpText
     [''v=0'', ''o=- 7 2 IN IP4 127.0.0.1'', ''s=-'', ''t=0 0'',
      ''a=ice-ufrag:wufrag'', ''a=ice-options:trickle'', ''a=ice-pwd:wpwd'',
      ''a=fingerprint:sha-256 CC'',
      ''m=video 9 UDP/TLS/RTP/SAVPF 97'',
      ''a=mid:0'', ''a=setup:active'',
      ''a=candidate:candidate:2 1 UDP 100 93.184.216.34 9 typ host'']"

section \<open>The lines that the address filter removes\<close>

text \<open>
  The addresses named for the filter, on the 4-byte form of an address: the private
  ranges of RFC 1918 (10/8, 172.16/12, 192.168/16), loopback (127/8) and link-local
  (169.254/16). An address is excluded when it has no 4-byte form or lies in one of
  these ranges.
\<close>

definition rfc1918 :: "IP \<Rightarrow> bool" where
  "rfc1918 ip4 =
     (ip4 ! 0 = 10
      \<or> (ip4 ! 0 = 172 \<and> 16 \<le> ip4 ! 1 \<and> ip4 ! 1 \<le> 31)
      \<or> (ip4 ! 0 = 192 \<and> ip4 ! 1 = 168))"

definition loopback4 :: "IP \<Rightarrow> bool" where
  "loopback4 ip4 = (ip4 ! 0 = 127)"

definition linkLocal4 :: "IP \<Rightarrow> bool" where
  "linkLocal4 ip4 = (ip4 ! 0 = 169 \<and> ip4 ! 1 = 254)"

definition excludedAddress :: "IP \<Rightarrow> bool" where
  "excludedAddress ip =
     (case To4 ip of
        None \<Rightarrow> True
      | Some ip4 \<Rightarrow> rfc1918 ip4 \<or> loopback4 ip4 \<or> linkLocal4 ip4)"

text \<open>
  A line is removed when it begins with \<open>a=end-of-candidates\<close>, or begins with
  \<open>a=candidate:\<close>, has at least five white-space separated fields, and its fifth
  field parses to an excluded address.
\<close>

definition removedLine :: "Lib \<Rightarrow> string \<Rightarrow> bool" where
  "removedLine lib line =
     (strings_HasPrefix line ''a=end-of-candidates''
      \<or> (strings_HasPrefix line ''a=candidate:''
          \<and> length (strings_Fields line) \<ge> 5
          \<and> (case ParseIP lib (strings_Fields line ! 4) of
                None \<Rightarrow> False
              | Some ip \<Rightarrow> excludedAddress ip)))"

text \<open>Scenario S3: a serialised answer with a private and a public candidate.\<close>

definition scenarioUnfiltered :: string where
  "scenarioUnfiltered = sdpText
     [''v=0'', ''m=video 9 UDP/TLS/RTP/SAVPF 97'', ''a=mid:0'',
      ''a=candidate:1 1 UDP 100 10.0.0.1 9 typ host'',
      ''a=candidate:2 1 UDP 100 93.184.216.34 9 typ host'',
      ''a=candidate:3 1 UDP 100 fe80::1 9 typ host'',
      ''a=candidate:4 1 UDP 100 host.local 9 typ host'',
      ''a=end-of-candidates'']"

definition scenarioFiltered :: string where
  "scenarioFiltered = sdpText
     [''v=0'', ''m=video 9 UDP/TLS/RTP/SAVPF 97'', ''a=mid:0'',
      ''a=candidate:2 1 UDP 100 93.184.216.34 9 typ host'',
      ''a=candidate:4 1 UDP 100 host.local 9 typ host'']"

text \<open>The same private candidate in an SDP whose lines end in LF alone.\<close>

definition lfTerminated :: string where
  "lfTerminated =
     ''v=0'' @ LF @ ''a=candidate:1 1 UDP 100 10.0.0.1 9 typ host'' @ LF
     @ ''a=end-of-candidates'' @ LF"

section \<open>Properties of the string functions\<close>

lemma Index_ge_m1: "strings_Index s sub \<ge> - 1"
  by (induction s) (auto simp: Let_def)

lemma Index_nonneg_iff: "strings_Index s sub \<ge> 0 \<longleftrightarrow> sublist sub s"
  by (induction s) (auto simp: Let_def sublist_Cons_right)

lemma Contains_sublist: "strings_Contains s sub \<longleftrightarrow> sublist sub s"
  by (simp add: strings_Contains_def Index_nonneg_iff)

lemma Index_zero_iff: "strings_Index s sub = 0 \<longleftrightarrow> prefix sub s"
proof (cases s)
  case Nil
  then show ?thesis by simp
next
  case (Cons c cs)
  have "strings_Index cs sub \<ge> - 1" by (rule Index_ge_m1)
  then show ?thesis using Cons by (auto simp: Let_def)
qed

lemma Index_first:
  "sub \<noteq> [] \<Longrightarrow> strings_Index s sub \<ge> 0 \<Longrightarrow> \<not> sublist sub (take (nat (strings_Index s sub)) s)"
proof (induction s)
  case Nil
  then show ?case by simp
next
  case (Cons c cs)
  show ?case
  proof (cases "prefix sub (c # cs)")
    case True
    then show ?thesis using Cons.prems by simp
  next
    case False
    have i: "strings_Index cs sub \<ge> 0"
      using Cons.prems(2) False by (auto simp: Let_def split: if_splits)
    have idx: "strings_Index (c # cs) sub = strings_Index cs sub + 1"
      using False i by (simp add: Let_def)
    have tk: "take (nat (strings_Index (c # cs) sub)) (c # cs) = c # take (nat (strings_Index cs sub)) cs"
      unfolding idx using i by (simp add: nat_add_distrib)
    have "\<not> prefix sub (c # take (nat (strings_Index cs sub)) cs)"
    proof
      assume "prefix sub (c # take (nat (strings_Index cs sub)) cs)"
      moreover have "prefix (c # take (nat (strings_Index cs sub)) cs) (c # cs)"
        by (simp add: take_is_prefix)
      ultimately have "prefix sub (c # cs)" by (rule prefix_order.trans)
      with False show False by simp
    qed
    moreover have "\<not> sublist sub (take (nat (strings_Index cs sub)) cs)"
      using Cons.IH[OF Cons.prems(1) i] .
    ultimately show ?thesis
      unfolding tk by (simp add: sublist_Cons_right)
  qed
qed

lemma trimLeftSpace_suffix: "suffix (trimLeftSpace s) s"
proof (induction s rule: trimLeftSpace.induct)
  case 1
  then show ?case by simp
next
  case (2 c cs)
  show ?case
  proof (cases "spacePrefix (c # cs) = 0")
    case True
    then show ?thesis by simp
  next
    case False
    have "suffix (drop (spacePrefix (c # cs) - 1) cs) (c # cs)"
      by (simp add: suffix_ConsI suffix_drop)
    with 2 False show ?thesis by (auto intro: suffix_order.trans)
  qed
qed

lemma trimRightSpaceRev_suffix: "suffix (trimRightSpaceRev s) s"
proof (induction s rule: trimRightSpaceRev.induct)
  case 1
  then show ?case by simp
next
  case (2 c cs)
  show ?case
  proof (cases "spaceSuffixRev (c # cs) = 0")
    case True
    then show ?thesis by simp
  next
    case False
    have "suffix (drop (spaceSuffixRev (c # cs) - 1) cs) (c # cs)"
      by (simp add: suffix_ConsI suffix_drop)
    with 2 False show ?thesis by (auto intro: suffix_order.trans)
  qed
qed

lemma TrimSpace_sublist: "sublist (strings_TrimSpace s) s"
proof -
  have "suffix (trimRightSpaceRev (rev (trimLeftSpace s))) (rev (trimLeftSpace s))"
    by (rule trimRightSpaceRev_suffix)
  then have "prefix (strings_TrimSpace s) (trimLeftSpace s)"
    by (simp add: strings_TrimSpace_def suffix_to_prefix)
  then have "sublist (strings_TrimSpace s) (trimLeftSpace s)"
    by (rule prefix_imp_sublist)
  moreover have "sublist (trimLeftSpace s) s"
    using trimLeftSpace_suffix by (rule suffix_imp_sublist)
  ultimately show ?thesis by (rule sublist_order.order.trans)
qed

lemma no_generation_append:
  assumes "\<not> sublist '' generation'' s"
  shows "\<not> sublist '' generation'' (s @ '' tcptype passive'')"
proof
  assume "sublist '' generation'' (s @ '' tcptype passive'')"
  then consider "sublist '' generation'' s" | "sublist '' generation'' '' tcptype passive''"
    | xs1 xs2 where "'' generation'' = xs1 @ xs2" "xs1 \<noteq> []" "xs2 \<noteq> []"
        "suffix xs1 s" "prefix xs2 '' tcptype passive''"
    unfolding sublist_append
    by (metis append_Nil append_Nil2 prefix_imp_sublist suffix_imp_sublist)
  then show False
  proof cases
    case 1
    with assms show ?thesis by simp
  next
    case 2
    then show ?thesis by code_simp
  next
    case 3
    from 3(3,5) obtain ys where xs2: "xs2 = CHR '' '' # ys"
      by (cases xs2) (auto simp: prefix_Cons)
    from 3(2) obtain z zs where xs1: "xs1 = z # zs" by (cases xs1) auto
    from 3(1) have "CHR '' '' \<in> set (tl '' generation'')"
      unfolding xs1 xs2 by (metis list.sel(3) append_Cons in_set_conv_decomp)
    then show ?thesis by simp
  qed
qed

lemma addTcpType_cases:
  "addTcpType s = s \<or> (addTcpType s = s @ '' tcptype passive'' \<and> \<not> sublist ''tcptype'' s)"
  by (auto simp: addTcpType_def Let_def Contains_sublist)

lemma addTcpType_no_generation:
  "\<not> sublist '' generation'' s \<Longrightarrow> \<not> sublist '' generation'' (addTcpType s)"
  using addTcpType_cases[of s] no_generation_append[of s] by auto

lemma tcptype_in_suffix: "sublist ''tcptype'' (s @ '' tcptype passive'')"
proof -
  have "s @ '' tcptype passive'' = (s @ '' '') @ ''tcptype'' @ '' passive''" by simp
  then show ?thesis unfolding sublist_def by blast
qed

lemma addTcpType_idem: "addTcpType (addTcpType s) = addTcpType s"
proof (cases "addTcpType s = s")
  case True
  then show ?thesis by simp
next
  case False
  with addTcpType_cases[of s] have eq: "addTcpType s = s @ '' tcptype passive''" by blast
  have "strings_Contains (s @ '' tcptype passive'') ''tcptype''"
    by (simp add: Contains_sublist tcptype_in_suffix)
  then have "addTcpType (s @ '' tcptype passive'') = s @ '' tcptype passive''"
    by (simp add: addTcpType_def Let_def)
  with eq show ?thesis by simp
qed

lemma dropGeneration_no_generation:
  "strings_Index c '' generation'' > 0 \<Longrightarrow> \<not> sublist '' generation'' (dropGeneration c)"
proof -
  assume pos: "strings_Index c '' generation'' > 0"
  have "\<not> sublist '' generation'' (take (nat (strings_Index c '' generation'')) c)"
    using Index_first[of "'' generation''" c] pos by simp
  moreover have "sublist (dropGeneration c) (take (nat (strings_Index c '' generation'')) c)"
    using pos by (simp add: dropGeneration_def Let_def TrimSpace_sublist)
  ultimately show ?thesis using sublist_order.order.trans by blast
qed

lemma dropGeneration_fixed:
  "strings_Index s '' generation'' \<le> 0 \<Longrightarrow> dropGeneration s = s"
  by (simp add: dropGeneration_def Let_def)

lemma prefix_addTcpType: "prefix s (addTcpType s)"
  using addTcpType_cases[of s] by auto

lemma dropGeneration_clean: "dropGeneration (cleanWowzaCandidate c) = cleanWowzaCandidate c"
proof -
  let ?g = "'' generation''"
  consider "strings_Index c ?g > 0" | "strings_Index c ?g = 0" | "strings_Index c ?g < 0"
    by linarith
  then have "strings_Index (cleanWowzaCandidate c) ?g \<le> 0"
  proof cases
    case 1
    then have "\<not> sublist ?g (cleanWowzaCandidate c)"
      unfolding cleanWowzaCandidate_def
      by (intro addTcpType_no_generation dropGeneration_no_generation)
    then show ?thesis using Index_nonneg_iff[of "cleanWowzaCandidate c" ?g] Index_zero_iff[of "cleanWowzaCandidate c" ?g] by linarith
  next
    case 2
    then have "dropGeneration c = c" by (simp add: dropGeneration_fixed)
    moreover from 2 have "prefix ?g c" by (simp add: Index_zero_iff)
    ultimately have "prefix ?g (cleanWowzaCandidate c)"
      unfolding cleanWowzaCandidate_def using prefix_addTcpType[of c] prefix_order.trans by auto
    then have "strings_Index (cleanWowzaCandidate c) ?g = 0" by (simp add: Index_zero_iff)
    then show ?thesis by simp
  next
    case 3
    then have "dropGeneration c = c" by (simp add: dropGeneration_fixed)
    moreover from 3 have "\<not> sublist ?g c" using Index_nonneg_iff[of c ?g] by simp
    ultimately have "\<not> sublist ?g (cleanWowzaCandidate c)"
      unfolding cleanWowzaCandidate_def by (simp add: addTcpType_no_generation)
    then show ?thesis using Index_nonneg_iff[of "cleanWowzaCandidate c" ?g] by linarith
  qed
  then show ?thesis by (rule dropGeneration_fixed)
qed

lemma clean_idem: "cleanWowzaCandidate (cleanWowzaCandidate c) = cleanWowzaCandidate c"
proof -
  have "cleanWowzaCandidate (cleanWowzaCandidate c) = addTcpType (cleanWowzaCandidate c)"
    by (simp add: cleanWowzaCandidate_def[of "cleanWowzaCandidate c"] dropGeneration_clean)
  also have "\<dots> = cleanWowzaCandidate c"
    by (simp add: cleanWowzaCandidate_def addTcpType_idem)
  finally show ?thesis .
qed

lemma clean_tcp:
  assumes "length (strings_Fields (dropGeneration c)) \<ge> 3"
    and "strings_ToUpper (strings_Fields (dropGeneration c) ! 2) = ''TCP''"
  shows "strings_Contains (cleanWowzaCandidate c) ''tcptype''"
proof (cases "strings_Contains (dropGeneration c) ''tcptype''")
  case True
  then show ?thesis by (simp add: cleanWowzaCandidate_def addTcpType_def Let_def)
next
  case False
  with assms have "cleanWowzaCandidate c = dropGeneration c @ '' tcptype passive''"
    by (simp add: cleanWowzaCandidate_def addTcpType_def Let_def)
  then show ?thesis by (simp add: Contains_sublist tcptype_in_suffix)
qed

lemma clean_no_generation:
  assumes "strings_Index c '' generation'' \<noteq> 0"
  shows "\<not> strings_Contains (cleanWowzaCandidate c) '' generation''"
proof (cases "strings_Index c '' generation'' > 0")
  case True
  then show ?thesis
    unfolding cleanWowzaCandidate_def Contains_sublist
    by (intro addTcpType_no_generation dropGeneration_no_generation)
next
  case False
  with assms have neg: "strings_Index c '' generation'' < 0" by simp
  then have "dropGeneration c = c" by (simp add: dropGeneration_fixed)
  moreover from neg have "\<not> sublist '' generation'' c"
    using Index_nonneg_iff[of c "'' generation''"] by simp
  ultimately show ?thesis
    unfolding cleanWowzaCandidate_def Contains_sublist by (simp add: addTcpType_no_generation)
qed

section \<open>Candidate cleaning\<close>

text \<open>
  C5, as amended. Cleaning is idempotent for every string. When the third
  white-space separated field of the candidate, after the cut at \<open>" generation"\<close>,
  is \<open>TCP\<close> in any case, the result contains \<open>tcptype\<close>. When the candidate does not
  begin with \<open>" generation"\<close>, the result contains no \<open>" generation"\<close>. The candidate
  of scenario S5 is cleaned to the string the scenario gives.
\<close>

theorem cleanWowzaCandidate_properties:
  "cleanWowzaCandidate (cleanWowzaCandidate c) = cleanWowzaCandidate c
   \<and> (length (strings_Fields (dropGeneration c)) \<ge> 3
        \<and> strings_ToUpper (strings_Fields (dropGeneration c) ! 2) = ''TCP''
      \<longrightarrow> strings_Contains (cleanWowzaCandidate c) ''tcptype'')
   \<and> (strings_Index c '' generation'' \<noteq> 0
      \<longrightarrow> \<not> strings_Contains (cleanWowzaCandidate c) '' generation'')
   \<and> cleanWowzaCandidate ''candidate:1 1 TCP 100 1.2.3.4 9 typ host generation 0''
       = ''candidate:1 1 TCP 100 1.2.3.4 9 typ host tcptype passive''"
proof (intro conjI impI)
  show "cleanWowzaCandidate (cleanWowzaCandidate c) = cleanWowzaCandidate c"
    by (rule clean_idem)
next
  assume "length (strings_Fields (dropGeneration c)) \<ge> 3
          \<and> strings_ToUpper (strings_Fields (dropGeneration c) ! 2) = ''TCP''"
  then show "strings_Contains (cleanWowzaCandidate c) ''tcptype''"
    using clean_tcp by blast
next
  assume "strings_Index c '' generation'' \<noteq> 0"
  then show "\<not> strings_Contains (cleanWowzaCandidate c) '' generation''"
    by (rule clean_no_generation)
next
  show "cleanWowzaCandidate ''candidate:1 1 TCP 100 1.2.3.4 9 typ host generation 0''
        = ''candidate:1 1 TCP 100 1.2.3.4 9 typ host tcptype passive''"
    by code_simp
qed

theorem cleanWowzaCandidate_properties_witness:
  "length (strings_Fields (dropGeneration ''candidate:1 1 tcp 100 1.2.3.4 9 typ host generation 0'')) \<ge> 3
   \<and> strings_ToUpper
        (strings_Fields (dropGeneration ''candidate:1 1 tcp 100 1.2.3.4 9 typ host generation 0'') ! 2)
       = ''TCP''
   \<and> strings_Index ''candidate:1 1 tcp 100 1.2.3.4 9 typ host generation 0'' '' generation'' \<noteq> 0
   \<and> strings_Contains
        (cleanWowzaCandidate ''candidate:1 1 tcp 100 1.2.3.4 9 typ host generation 0'') ''tcptype''
   \<and> \<not> strings_Contains
        (cleanWowzaCandidate ''candidate:1 1 tcp 100 1.2.3.4 9 typ host generation 0'')
        '' generation''"
proof -
  let ?c = "''candidate:1 1 tcp 100 1.2.3.4 9 typ host generation 0''"
  have h1: "length (strings_Fields (dropGeneration ?c)) \<ge> 3
            \<and> strings_ToUpper (strings_Fields (dropGeneration ?c) ! 2) = ''TCP''"
    by code_simp
  have h2: "strings_Index ?c '' generation'' \<noteq> 0"
    by code_simp
  show ?thesis
    using h1 h2 cleanWowzaCandidate_properties [of ?c] by blast
qed

text \<open>
  C5 as stated fails at two inputs. A candidate that begins with \<open>" generation"\<close> is
  returned as it is, because the cut is made only at an offset greater than 0. And
  when \<open>" generation"\<close> stands before the third field, the cut removes the field
  \<open>TCP\<close> before it is looked at, so no \<open>tcptype\<close> is added.
\<close>

theorem cleanWowzaCandidate_counterexample:
  "strings_Contains (cleanWowzaCandidate '' generation 0'') '' generation''
   \<and> length (strings_Fields ''candidate:1 generation TCP 100 1.2.3.4 9 typ host'') \<ge> 3
   \<and> strings_ToUpper (strings_Fields ''candidate:1 generation TCP 100 1.2.3.4 9 typ host'' ! 2) = ''TCP''
   \<and> \<not> strings_Contains ''candidate:1 generation TCP 100 1.2.3.4 9 typ host'' ''tcptype''
   \<and> \<not> strings_Contains
          (cleanWowzaCandidate ''candidate:1 generation TCP 100 1.2.3.4 9 typ host'') ''tcptype''"
  by code_simp

section \<open>The create handler\<close>

lemma handleCreate_status:
  "StatusCode (fst (handleCreate lib peer uuid mgr w r app stream url)) \<in> {400, 415, 500, 502, 201}"
  by (auto simp: handleCreate_def http_Error_def Let_def split: sum.splits prod.splits)



lemma handleCreate_truncates:
  assumes "length (BodyData r) > 64 * 1024"
  shows "handleCreate lib peer uuid mgr w r app stream url
         = handleCreate lib peer uuid mgr w (r\<lparr>BodyData := take (64 * 1024) (BodyData r), BodyError := None\<rparr>) app stream url"
  using assms by (simp add: handleCreate_def readLimited_def Let_def split: sum.splits prod.splits)

lemma handleCreate_oversized_status:
  assumes "length (BodyData r) > 64 * 1024" "strings_Contains (ContentType r) ''application/sdp''"
  shows "StatusCode (fst (handleCreate lib peer uuid mgr w r app stream url)) \<in> {201, 502}"
  using assms
  by (auto simp: handleCreate_def http_Error_def Let_def readLimited_def Create_def
           split: sum.splits prod.splits if_splits option.splits)

lemma Contains_wowza_error: "strings_Contains (''wowza error: '' @ d) ''wowza error''"
  by (simp add: strings_Contains_def)

lemma Negotiate_bad_first:
  assumes "Dial peer = None" "WriteGetOffer peer = None" "ReadOffer peer = Inr resp"
    "Status resp < 200 \<or> Status resp \<ge> 300"
  shows "Negotiate lib peer s offer = (Inl (''wowza error: '' @ StatusDescription resp), s)"
  using assms by (simp add: Negotiate_def)

lemma Negotiate_bad_second:
  assumes "Dial peer = None" "WriteGetOffer peer = None" "ReadOffer peer = Inr first"
    "200 \<le> Status first" "Status first < 300"
    "ResponseSDP first = Some sdp" "SDP sdp \<noteq> []"
    "CreateAnswerForWowza lib (SDP sdp) offer = Inr answer"
    "WriteSendResponse peer = None" "ReadCandidates peer = Inr resp"
    "Status resp < 200 \<or> Status resp \<ge> 300"
  shows "fst (Negotiate lib peer s offer) = Inl (''wowza error: '' @ StatusDescription resp)"
  using assms by (simp add: Negotiate_def Let_def)

lemma handleCreate_negotiation_error:
  assumes "readLimited r (64 * 1024) = Inr offer" "offer \<noteq> []"
    "strings_Contains (ContentType r) ''application/sdp''"
    "fst (Negotiate lib peer (SetStopCallback (NewSession (''session-'' @ uuid) app stream url)) offer) = Inl err"
  shows "handleCreate lib peer uuid mgr w r app stream url
         = (http_Error w (if strings_Contains err ''wowza error'' then err else ''signaling failed'') 502,
            mgr\<lparr>sessions := (sessions mgr)(''session-'' @ uuid := None)\<rparr>)"
  using assms
  by (auto simp: handleCreate_def Create_def Remove_def Let_def split: prod.splits sum.splits)

lemma scenario_unmarshal_consistent:
  "Marshal scenarioWowzaDesc = scenarioWowzaOffer \<and> Marshal sessionLevelDesc = sessionLevelOffer"
  by code_simp

lemma scenario_answer_for_wowza:
  "CreateAnswerForWowza scenarioLib scenarioWowzaOffer scenarioClientOffer = Inr scenarioAnswerForWowza"
  by code_simp

lemma handleCreate_failure_observed:
  assumes "readLimited r (64 * 1024) = Inr offer" "offer \<noteq> []"
    "strings_Contains (ContentType r) ''application/sdp''"
    "fst (Negotiate lib peer (SetStopCallback (NewSession (''session-'' @ uuid) app stream url)) offer)
     = Inl err"
  shows "StatusCode (fst (handleCreate lib peer uuid mgr w r app stream url)) = 502
       \<and> Body (fst (handleCreate lib peer uuid mgr w r app stream url))
           = Body w @ (if strings_Contains err ''wowza error'' then err else ''signaling failed'') @ LF
       \<and> sessions (snd (handleCreate lib peer uuid mgr w r app stream url))
           = (sessions mgr)(''session-'' @ uuid := None)"
  unfolding handleCreate_negotiation_error [OF assms]
  by (simp add: http_Error_def)

lemma handleCreate_wowza_error_observed:
  assumes "readLimited r (64 * 1024) = Inr offer" "offer \<noteq> []"
    "strings_Contains (ContentType r) ''application/sdp''"
    "fst (Negotiate lib peer (SetStopCallback (NewSession (''session-'' @ uuid) app stream url)) offer)
     = Inl (''wowza error: '' @ d)"
  shows "StatusCode (fst (handleCreate lib peer uuid mgr w r app stream url)) = 502
       \<and> Body (fst (handleCreate lib peer uuid mgr w r app stream url))
           = Body w @ ''wowza error: '' @ d @ LF
       \<and> sessions (snd (handleCreate lib peer uuid mgr w r app stream url))
           = (sessions mgr)(''session-'' @ uuid := None)"
proof -
  have c: "strings_Contains (''wowza error: '' @ d) ''wowza error''"
    by (rule Contains_wowza_error)
  show ?thesis
    using handleCreate_failure_observed [OF assms, where mgr = mgr and w = w]
    by (simp only: c if_True append_assoc)
qed

text \<open>
  C3, as amended. When the frame read after \<open>getOffer\<close>, or the frame read after
  \<open>sendResponse\<close>, has a status outside \<open>[200,300)\<close>, \<open>Negotiate\<close> returns the error
  \<open>wowza error: <statusDescription>\<close>; the create handler then answers with status 502
  and that text, followed by a line feed, as the body, and the manager no longer holds
  the session. Every other failure of \<open>Negotiate\<close> is answered with status 502 and the
  session removed as well; the body is the text of the error when that text contains
  \<open>wowza error\<close>, and \<open>signaling failed\<close> otherwise.
\<close>

theorem negotiation_failure_response:
  "(readLimited r (64 * 1024) = Inr offer \<and> offer \<noteq> []
      \<and> strings_Contains (ContentType r) ''application/sdp''
      \<and> Dial peer = None \<and> WriteGetOffer peer = None \<and> ReadOffer peer = Inr resp
      \<and> (Status resp < 200 \<or> Status resp \<ge> 300)
    \<longrightarrow> fst (Negotiate lib peer sess offer) = Inl (''wowza error: '' @ StatusDescription resp)
        \<and> StatusCode (fst (handleCreate lib peer uuid mgr w r app stream url)) = 502
        \<and> Body (fst (handleCreate lib peer uuid mgr w r app stream url))
            = Body w @ ''wowza error: '' @ StatusDescription resp @ LF
        \<and> sessions (snd (handleCreate lib peer uuid mgr w r app stream url))
            = (sessions mgr)(''session-'' @ uuid := None))
   \<and> (readLimited r2 (64 * 1024) = Inr offer2 \<and> offer2 \<noteq> []
      \<and> strings_Contains (ContentType r2) ''application/sdp''
      \<and> Dial peer2 = None \<and> WriteGetOffer peer2 = None \<and> ReadOffer peer2 = Inr first
      \<and> 200 \<le> Status first \<and> Status first < 300
      \<and> ResponseSDP first = Some sdp \<and> SDP sdp \<noteq> []
      \<and> CreateAnswerForWowza lib2 (SDP sdp) offer2 = Inr answer
      \<and> WriteSendResponse peer2 = None \<and> ReadCandidates peer2 = Inr resp2
      \<and> (Status resp2 < 200 \<or> Status resp2 \<ge> 300)
    \<longrightarrow> fst (Negotiate lib2 peer2 sess2 offer2) = Inl (''wowza error: '' @ StatusDescription resp2)
        \<and> StatusCode (fst (handleCreate lib2 peer2 uuid2 mgr2 w2 r2 app2 stream2 url2)) = 502
        \<and> Body (fst (handleCreate lib2 peer2 uuid2 mgr2 w2 r2 app2 stream2 url2))
            = Body w2 @ ''wowza error: '' @ StatusDescription resp2 @ LF
        \<and> sessions (snd (handleCreate lib2 peer2 uuid2 mgr2 w2 r2 app2 stream2 url2))
            = (sessions mgr2)(''session-'' @ uuid2 := None))
   \<and> (readLimited r3 (64 * 1024) = Inr offer3 \<and> offer3 \<noteq> []
      \<and> strings_Contains (ContentType r3) ''application/sdp''
      \<and> fst (Negotiate lib3 peer3
                (SetStopCallback (NewSession (''session-'' @ uuid3) app3 stream3 url3)) offer3)
          = Inl err
    \<longrightarrow> StatusCode (fst (handleCreate lib3 peer3 uuid3 mgr3 w3 r3 app3 stream3 url3)) = 502
        \<and> Body (fst (handleCreate lib3 peer3 uuid3 mgr3 w3 r3 app3 stream3 url3))
            = Body w3 @ (if strings_Contains err ''wowza error'' then err
                         else ''signaling failed'') @ LF
        \<and> sessions (snd (handleCreate lib3 peer3 uuid3 mgr3 w3 r3 app3 stream3 url3))
            = (sessions mgr3)(''session-'' @ uuid3 := None))"
proof (intro conjI)
  show "readLimited r (64 * 1024) = Inr offer \<and> offer \<noteq> []
      \<and> strings_Contains (ContentType r) ''application/sdp''
      \<and> Dial peer = None \<and> WriteGetOffer peer = None \<and> ReadOffer peer = Inr resp
      \<and> (Status resp < 200 \<or> Status resp \<ge> 300)
    \<longrightarrow> fst (Negotiate lib peer sess offer) = Inl (''wowza error: '' @ StatusDescription resp)
        \<and> StatusCode (fst (handleCreate lib peer uuid mgr w r app stream url)) = 502
        \<and> Body (fst (handleCreate lib peer uuid mgr w r app stream url))
            = Body w @ ''wowza error: '' @ StatusDescription resp @ LF
        \<and> sessions (snd (handleCreate lib peer uuid mgr w r app stream url))
            = (sessions mgr)(''session-'' @ uuid := None)"
  proof
    assume a: "readLimited r (64 * 1024) = Inr offer \<and> offer \<noteq> []
      \<and> strings_Contains (ContentType r) ''application/sdp''
      \<and> Dial peer = None \<and> WriteGetOffer peer = None \<and> ReadOffer peer = Inr resp
      \<and> (Status resp < 200 \<or> Status resp \<ge> 300)"
    then have n: "\<And>s. fst (Negotiate lib peer s offer)
                      = Inl (''wowza error: '' @ StatusDescription resp)"
      using Negotiate_bad_first [of peer resp lib _ offer] by (metis fst_conv)
    from a have p: "readLimited r (64 * 1024) = Inr offer" "offer \<noteq> []"
        "strings_Contains (ContentType r) ''application/sdp''"
      by blast+
    from n [of sess] handleCreate_wowza_error_observed [OF p n, where mgr = mgr and w = w]
    show "fst (Negotiate lib peer sess offer) = Inl (''wowza error: '' @ StatusDescription resp)
        \<and> StatusCode (fst (handleCreate lib peer uuid mgr w r app stream url)) = 502
        \<and> Body (fst (handleCreate lib peer uuid mgr w r app stream url))
            = Body w @ ''wowza error: '' @ StatusDescription resp @ LF
        \<and> sessions (snd (handleCreate lib peer uuid mgr w r app stream url))
            = (sessions mgr)(''session-'' @ uuid := None)"
      by blast
  qed
next
  show "readLimited r2 (64 * 1024) = Inr offer2 \<and> offer2 \<noteq> []
      \<and> strings_Contains (ContentType r2) ''application/sdp''
      \<and> Dial peer2 = None \<and> WriteGetOffer peer2 = None \<and> ReadOffer peer2 = Inr first
      \<and> 200 \<le> Status first \<and> Status first < 300
      \<and> ResponseSDP first = Some sdp \<and> SDP sdp \<noteq> []
      \<and> CreateAnswerForWowza lib2 (SDP sdp) offer2 = Inr answer
      \<and> WriteSendResponse peer2 = None \<and> ReadCandidates peer2 = Inr resp2
      \<and> (Status resp2 < 200 \<or> Status resp2 \<ge> 300)
    \<longrightarrow> fst (Negotiate lib2 peer2 sess2 offer2) = Inl (''wowza error: '' @ StatusDescription resp2)
        \<and> StatusCode (fst (handleCreate lib2 peer2 uuid2 mgr2 w2 r2 app2 stream2 url2)) = 502
        \<and> Body (fst (handleCreate lib2 peer2 uuid2 mgr2 w2 r2 app2 stream2 url2))
            = Body w2 @ ''wowza error: '' @ StatusDescription resp2 @ LF
        \<and> sessions (snd (handleCreate lib2 peer2 uuid2 mgr2 w2 r2 app2 stream2 url2))
            = (sessions mgr2)(''session-'' @ uuid2 := None)"
  proof
    assume a: "readLimited r2 (64 * 1024) = Inr offer2 \<and> offer2 \<noteq> []
      \<and> strings_Contains (ContentType r2) ''application/sdp''
      \<and> Dial peer2 = None \<and> WriteGetOffer peer2 = None \<and> ReadOffer peer2 = Inr first
      \<and> 200 \<le> Status first \<and> Status first < 300
      \<and> ResponseSDP first = Some sdp \<and> SDP sdp \<noteq> []
      \<and> CreateAnswerForWowza lib2 (SDP sdp) offer2 = Inr answer
      \<and> WriteSendResponse peer2 = None \<and> ReadCandidates peer2 = Inr resp2
      \<and> (Status resp2 < 200 \<or> Status resp2 \<ge> 300)"
    then have n: "\<And>s. fst (Negotiate lib2 peer2 s offer2)
                      = Inl (''wowza error: '' @ StatusDescription resp2)"
      using Negotiate_bad_second [of peer2 first sdp lib2 offer2 answer resp2] by blast
    from a have p: "readLimited r2 (64 * 1024) = Inr offer2" "offer2 \<noteq> []"
        "strings_Contains (ContentType r2) ''application/sdp''"
      by blast+
    from n [of sess2] handleCreate_wowza_error_observed [OF p n, where mgr = mgr2 and w = w2]
    show "fst (Negotiate lib2 peer2 sess2 offer2) = Inl (''wowza error: '' @ StatusDescription resp2)
        \<and> StatusCode (fst (handleCreate lib2 peer2 uuid2 mgr2 w2 r2 app2 stream2 url2)) = 502
        \<and> Body (fst (handleCreate lib2 peer2 uuid2 mgr2 w2 r2 app2 stream2 url2))
            = Body w2 @ ''wowza error: '' @ StatusDescription resp2 @ LF
        \<and> sessions (snd (handleCreate lib2 peer2 uuid2 mgr2 w2 r2 app2 stream2 url2))
            = (sessions mgr2)(''session-'' @ uuid2 := None)"
      by blast
  qed
next
  show "readLimited r3 (64 * 1024) = Inr offer3 \<and> offer3 \<noteq> []
      \<and> strings_Contains (ContentType r3) ''application/sdp''
      \<and> fst (Negotiate lib3 peer3
                (SetStopCallback (NewSession (''session-'' @ uuid3) app3 stream3 url3)) offer3)
          = Inl err
    \<longrightarrow> StatusCode (fst (handleCreate lib3 peer3 uuid3 mgr3 w3 r3 app3 stream3 url3)) = 502
        \<and> Body (fst (handleCreate lib3 peer3 uuid3 mgr3 w3 r3 app3 stream3 url3))
            = Body w3 @ (if strings_Contains err ''wowza error'' then err
                         else ''signaling failed'') @ LF
        \<and> sessions (snd (handleCreate lib3 peer3 uuid3 mgr3 w3 r3 app3 stream3 url3))
            = (sessions mgr3)(''session-'' @ uuid3 := None)"
    using handleCreate_failure_observed [of r3 offer3 lib3 peer3 uuid3 app3 stream3 url3 err mgr3 w3]
    by blast
qed

theorem negotiation_failure_response_witness:
  "readLimited (postRequest ''application/sdp'' scenarioClientOffer) (64 * 1024) = Inr scenarioClientOffer
   \<and> scenarioClientOffer \<noteq> []
   \<and> strings_Contains (ContentType (postRequest ''application/sdp'' scenarioClientOffer)) ''application/sdp''
   \<and> Dial notFoundPeer = None \<and> WriteGetOffer notFoundPeer = None
   \<and> (\<exists>resp. ReadOffer notFoundPeer = Inr resp \<and> Status resp = 404
         \<and> StatusDescription resp = ''stream not found'')
   \<and> StatusCode (fst (handleCreate scenarioLib notFoundPeer ''u1'' emptyManager newResponse
        (postRequest ''application/sdp'' scenarioClientOffer) ''live'' ''demo'' ''wss://w.example/x''))
      = 502
   \<and> Body (fst (handleCreate scenarioLib notFoundPeer ''u1'' emptyManager newResponse
        (postRequest ''application/sdp'' scenarioClientOffer) ''live'' ''demo'' ''wss://w.example/x''))
      = ''wowza error: stream not found'' @ LF
   \<and> sessions (snd (handleCreate scenarioLib notFoundPeer ''u1'' emptyManager newResponse
        (postRequest ''application/sdp'' scenarioClientOffer) ''live'' ''demo'' ''wss://w.example/x''))
        ''session-u1'' = None
   \<and> Dial lateErrorPeer = None \<and> WriteGetOffer lateErrorPeer = None
   \<and> (\<exists>first sdp resp2. ReadOffer lateErrorPeer = Inr first \<and> Status first = 200
         \<and> ResponseSDP first = Some sdp \<and> SDP sdp = scenarioWowzaOffer
         \<and> ReadCandidates lateErrorPeer = Inr resp2 \<and> Status resp2 = 500
         \<and> StatusDescription resp2 = ''internal error'')
   \<and> CreateAnswerForWowza scenarioLib scenarioWowzaOffer scenarioClientOffer
      = Inr scenarioAnswerForWowza
   \<and> WriteSendResponse lateErrorPeer = None
   \<and> StatusCode (fst (handleCreate scenarioLib lateErrorPeer ''u2'' emptyManager newResponse
        (postRequest ''application/sdp'' scenarioClientOffer) ''live'' ''demo'' ''wss://w.example/x''))
      = 502
   \<and> Body (fst (handleCreate scenarioLib lateErrorPeer ''u2'' emptyManager newResponse
        (postRequest ''application/sdp'' scenarioClientOffer) ''live'' ''demo'' ''wss://w.example/x''))
      = ''wowza error: internal error'' @ LF
   \<and> fst (Negotiate scenarioLib refusedPeer
            (SetStopCallback (NewSession ''session-u3'' ''live'' ''demo'' ''wss://w.example/x''))
            scenarioClientOffer)
      = Inl ''websocket dial: connection refused''
   \<and> StatusCode (fst (handleCreate scenarioLib refusedPeer ''u3'' emptyManager newResponse
        (postRequest ''application/sdp'' scenarioClientOffer) ''live'' ''demo'' ''wss://w.example/x''))
      = 502
   \<and> Body (fst (handleCreate scenarioLib refusedPeer ''u3'' emptyManager newResponse
        (postRequest ''application/sdp'' scenarioClientOffer) ''live'' ''demo'' ''wss://w.example/x''))
      = ''signaling failed'' @ LF"
proof -
  let ?r = "postRequest ''application/sdp'' scenarioClientOffer"
  let ?resp = "\<lparr>Status = 404, StatusDescription = ''stream not found'',
                 Direction = [], Command = [], StreamInfo = emptyStreamInfo,
                 ResponseSDP = None, ICECandidates = []\<rparr>"
  let ?first = "\<lparr>Status = 200, StatusDescription = ''OK'',
                  Direction = ''play'', Command = ''getOffer'',
                  StreamInfo = \<lparr>ApplicationName = ''live'', StreamName = ''demo'',
                                 StreamSessionID = ''42''\<rparr>,
                  ResponseSDP = Some \<lparr>SDP = scenarioWowzaOffer, SDPType = ''offer''\<rparr>,
                  ICECandidates = []\<rparr>"
  let ?sdp = "\<lparr>SDP = scenarioWowzaOffer, SDPType = ''offer''\<rparr>"
  let ?resp2 = "\<lparr>Status = 500, StatusDescription = ''internal error'',
                  Direction = [], Command = [], StreamInfo = emptyStreamInfo,
                  ResponseSDP = None, ICECandidates = []\<rparr>"
  have len: "length scenarioClientOffer < 64 * 1024" by code_simp
  have body: "readLimited ?r (64 * 1024) = Inr scenarioClientOffer"
    using len by (simp add: readLimited_def postRequest_def)
  have ne: "scenarioClientOffer \<noteq> []" by code_simp
  have ct: "strings_Contains (ContentType ?r) ''application/sdp''"
    by (simp add: postRequest_def strings_Contains_def)
  have ne2: "scenarioWowzaOffer \<noteq> []" by code_simp
  have p1: "Dial notFoundPeer = None" "WriteGetOffer notFoundPeer = None"
    "ReadOffer notFoundPeer = Inr ?resp"
    by (simp_all add: notFoundPeer_def)
  have p2: "Dial lateErrorPeer = None" "WriteGetOffer lateErrorPeer = None"
    "ReadOffer lateErrorPeer = Inr ?first" "WriteSendResponse lateErrorPeer = None"
    "ReadCandidates lateErrorPeer = Inr ?resp2"
    by (simp_all add: lateErrorPeer_def)
  have ans: "CreateAnswerForWowza scenarioLib scenarioWowzaOffer scenarioClientOffer
             = Inr scenarioAnswerForWowza"
    by (rule scenario_answer_for_wowza)
  have p3: "fst (Negotiate scenarioLib refusedPeer
            (SetStopCallback (NewSession ''session-u3'' ''live'' ''demo'' ''wss://w.example/x''))
            scenarioClientOffer) = Inl ''websocket dial: connection refused''"
    by (simp add: Negotiate_def refusedPeer_def)
  have nc: "\<not> strings_Contains ''websocket dial: connection refused'' ''wowza error''"
    by code_simp
  have nb: "Body newResponse = []" "sessions emptyManager = Map.empty"
    by (simp_all add: newResponse_def emptyManager_def)
  note t = negotiation_failure_response [where r = ?r and offer = scenarioClientOffer
      and peer = notFoundPeer and resp = ?resp and lib = scenarioLib and uuid = "''u1''"
      and mgr = emptyManager and w = newResponse and app = "''live''" and stream = "''demo''"
      and url = "''wss://w.example/x''"
      and ?r2.0 = ?r and ?offer2.0 = scenarioClientOffer and ?peer2.0 = lateErrorPeer
      and first = ?first and sdp = ?sdp and ?lib2.0 = scenarioLib
      and answer = scenarioAnswerForWowza and ?resp2.0 = ?resp2 and ?uuid2.0 = "''u2''"
      and ?mgr2.0 = emptyManager and ?w2.0 = newResponse and ?app2.0 = "''live''"
      and ?stream2.0 = "''demo''" and ?url2.0 = "''wss://w.example/x''"
      and ?r3.0 = ?r and ?offer3.0 = scenarioClientOffer and ?lib3.0 = scenarioLib
      and ?peer3.0 = refusedPeer and ?uuid3.0 = "''u3''" and ?app3.0 = "''live''"
      and ?stream3.0 = "''demo''" and ?url3.0 = "''wss://w.example/x''"
      and err = "''websocket dial: connection refused''" and ?mgr3.0 = emptyManager
      and ?w3.0 = newResponse]
  have c1: "StatusCode (fst (handleCreate scenarioLib notFoundPeer ''u1'' emptyManager newResponse ?r
             ''live'' ''demo'' ''wss://w.example/x'')) = 502
          \<and> Body (fst (handleCreate scenarioLib notFoundPeer ''u1'' emptyManager newResponse ?r
             ''live'' ''demo'' ''wss://w.example/x'')) = ''wowza error: stream not found'' @ LF
          \<and> sessions (snd (handleCreate scenarioLib notFoundPeer ''u1'' emptyManager newResponse ?r
             ''live'' ''demo'' ''wss://w.example/x'')) ''session-u1'' = None"
    using t body ne ct p1 nb by simp
  have c2: "StatusCode (fst (handleCreate scenarioLib lateErrorPeer ''u2'' emptyManager newResponse ?r
             ''live'' ''demo'' ''wss://w.example/x'')) = 502
          \<and> Body (fst (handleCreate scenarioLib lateErrorPeer ''u2'' emptyManager newResponse ?r
             ''live'' ''demo'' ''wss://w.example/x'')) = ''wowza error: internal error'' @ LF"
    using t body ne ct p2 ans ne2 nb by simp
  have c3: "StatusCode (fst (handleCreate scenarioLib refusedPeer ''u3'' emptyManager newResponse ?r
             ''live'' ''demo'' ''wss://w.example/x'')) = 502
          \<and> Body (fst (handleCreate scenarioLib refusedPeer ''u3'' emptyManager newResponse ?r
             ''live'' ''demo'' ''wss://w.example/x'')) = ''signaling failed'' @ LF"
    using t body ne ct p3 nc nb by simp
  show ?thesis
    using body ne ct p1 p2 ans p3 c1 c2 c3 by simp
qed

text \<open>
  C3 as stated fails for a negotiation failure that is not a status frame but whose
  text contains \<open>wowza error\<close>: when the read after \<open>getOffer\<close> ends on a close frame
  with that reason, no frame is decoded, and the reply is 502 with the text of the
  read error as its body, not \<open>signaling failed\<close>.
\<close>

theorem negotiation_failure_counterexample:
  "ReadOffer closedPeer = Inl ''websocket: close 1011 (internal server error): wowza error''
   \<and> fst (Negotiate scenarioLib closedPeer
            (SetStopCallback (NewSession ''session-u1'' ''live'' ''demo'' ''wss://w.example/x''))
            ''v=0'')
      = Inl ''read getOffer response: websocket: close 1011 (internal server error): wowza error''
   \<and> StatusCode (fst (handleCreate scenarioLib closedPeer ''u1'' emptyManager newResponse
        (postRequest ''application/sdp'' ''v=0'') ''live'' ''demo'' ''wss://w.example/x'')) = 502
   \<and> Body (fst (handleCreate scenarioLib closedPeer ''u1'' emptyManager newResponse
        (postRequest ''application/sdp'' ''v=0'') ''live'' ''demo'' ''wss://w.example/x''))
      = ''read getOffer response: websocket: close 1011 (internal server error): wowza error'' @ LF
   \<and> Body (fst (handleCreate scenarioLib closedPeer ''u1'' emptyManager newResponse
        (postRequest ''application/sdp'' ''v=0'') ''live'' ''demo'' ''wss://w.example/x''))
      \<noteq> ''signaling failed'' @ LF"
  by (simp add: handleCreate_def readLimited_def postRequest_def Create_def Negotiate_def
        closedPeer_def strings_Contains_def http_Error_def newResponse_def Remove_def
        NewSession_def SetStopCallback_def LF_def Let_def)

text \<open>
  C6. \<open>withCORS\<close> answers every \<open>OPTIONS\<close> request itself with 204 and does not call
  the wrapped handler, so the branch of the method switch that calls
  \<open>writeWHEPOptions\<close> is never reached: the response to
  \<open>OPTIONS /whep/h264/live/demo\<close> has status 204 and the four CORS headers, and
  neither \<open>Accept-Post\<close> nor \<open>Accept-Patch\<close>, which the method switch alone would set.
\<close>

theorem options_response_lacks_accept_headers:
  "StatusCode (fst (withCORS
      (methodSwitch scenarioLib refusedPeer ''u1'' ''live'' ''demo'' ''wss://w.example/x'')
      (newResponse, emptyManager) optionsRequest)) = 204
   \<and> Header (fst (withCORS
      (methodSwitch scenarioLib refusedPeer ''u1'' ''live'' ''demo'' ''wss://w.example/x'')
      (newResponse, emptyManager) optionsRequest)) ''Accept-Post'' = None
   \<and> Header (fst (withCORS
      (methodSwitch scenarioLib refusedPeer ''u1'' ''live'' ''demo'' ''wss://w.example/x'')
      (newResponse, emptyManager) optionsRequest)) ''Accept-Patch'' = None
   \<and> Header (fst (methodSwitch scenarioLib refusedPeer ''u1'' ''live'' ''demo'' ''wss://w.example/x''
      (newResponse, emptyManager) optionsRequest)) ''Accept-Post'' = Some ''application/sdp''
   \<and> Header (fst (methodSwitch scenarioLib refusedPeer ''u1'' ''live'' ''demo'' ''wss://w.example/x''
      (newResponse, emptyManager) optionsRequest)) ''Accept-Patch''
      = Some ''application/trickle-ice-sdpfrag''"
  by (simp add: withCORS_def methodSwitch_def writeWHEPOptions_def newResponse_def
        optionsRequest_def Let_def)

lemma withCORS_options:
  "Method r = ''OPTIONS'' \<Longrightarrow>
   withCORS next (w, m) r
   = (w\<lparr>StatusCode := 204,
        Header := (Header w)
          (''Access-Control-Allow-Origin'' \<mapsto> ''*'',
           ''Access-Control-Allow-Methods'' \<mapsto> ''GET, POST, PATCH, DELETE, OPTIONS'',
           ''Access-Control-Allow-Headers'' \<mapsto> ''Content-Type, Authorization'',
           ''Access-Control-Expose-Headers'' \<mapsto> ''Location, Link, Accept-Patch'')\<rparr>, m)"
  by (simp add: withCORS_def Let_def)

text \<open>
  C7, as amended. A body longer than 65536 bytes is cut to its first 65536 bytes and
  the request is handled exactly as one that carries those bytes; with a content type
  that contains \<open>application/sdp\<close> it goes on to negotiation, and the response is 201
  or 502.
\<close>

theorem oversized_body_is_truncated:
  "length (BodyData r) > 64 * 1024 \<Longrightarrow>
   handleCreate lib peer uuid mgr w r app stream url
     = handleCreate lib peer uuid mgr w
         (r\<lparr>BodyData := take (64 * 1024) (BodyData r), BodyError := None\<rparr>) app stream url
   \<and> (strings_Contains (ContentType r) ''application/sdp''
        \<longrightarrow> StatusCode (fst (handleCreate lib peer uuid mgr w r app stream url)) \<in> {201, 502})"
  using handleCreate_truncates handleCreate_oversized_status by blast

theorem oversized_body_is_truncated_witness:
  "length (BodyData (postRequest ''application/sdp'' (replicate 65537 (CHR ''a'')))) > 64 * 1024
   \<and> strings_Contains (ContentType (postRequest ''application/sdp'' (replicate 65537 (CHR ''a''))))
        ''application/sdp''
   \<and> handleCreate scenarioLib refusedPeer ''u1'' emptyManager newResponse
        (postRequest ''application/sdp'' (replicate 65537 (CHR ''a''))) ''live'' ''demo'' ''wss://w.example/x''
      = handleCreate scenarioLib refusedPeer ''u1'' emptyManager newResponse
        (postRequest ''application/sdp'' (replicate 65536 (CHR ''a''))) ''live'' ''demo'' ''wss://w.example/x''
   \<and> StatusCode (fst (handleCreate scenarioLib refusedPeer ''u1'' emptyManager newResponse
        (postRequest ''application/sdp'' (replicate 65537 (CHR ''a''))) ''live'' ''demo'' ''wss://w.example/x''))
      \<in> {201, 502}"
proof -
  let ?r = "postRequest ''application/sdp'' (replicate 65537 (CHR ''a''))"
  have h1: "length (BodyData ?r) > 64 * 1024" by (simp add: postRequest_def)
  have h2: "strings_Contains (ContentType ?r) ''application/sdp''"
    by (simp add: postRequest_def strings_Contains_def)
  have e: "?r\<lparr>BodyData := take (64 * 1024) (BodyData ?r), BodyError := None\<rparr>
           = postRequest ''application/sdp'' (replicate 65536 (CHR ''a''))"
    by (simp add: postRequest_def)
  show ?thesis
    using h1 h2 oversized_body_is_truncated [OF h1, of scenarioLib refusedPeer "''u1''"
        emptyManager newResponse "''live''" "''demo''" "''wss://w.example/x''"]
    unfolding e by blast
qed

text \<open>
  C7 as stated fails: a POST whose body has 65537 bytes and whose content type is
  \<open>application/sdp\<close> is not rejected with a 4xx status. Its first 65536 bytes are
  passed to \<open>Negotiate\<close>; here the WebSocket dial fails and the reply is 502.
\<close>

theorem oversized_body_counterexample:
  "length (BodyData (postRequest ''application/sdp'' (replicate 65537 (CHR ''a'')))) = 64 * 1024 + 1
   \<and> fst (handleCreate scenarioLib refusedPeer ''u1'' emptyManager newResponse
        (postRequest ''application/sdp'' (replicate 65537 (CHR ''a''))) ''live'' ''demo'' ''wss://w.example/x'')
      = http_Error newResponse ''signaling failed'' 502
   \<and> fst (Negotiate scenarioLib refusedPeer
        (SetStopCallback (NewSession ''session-u1'' ''live'' ''demo'' ''wss://w.example/x''))
        (replicate 65536 (CHR ''a'')))
      = Inl ''websocket dial: connection refused''"
  by (simp add: handleCreate_def readLimited_def postRequest_def Create_def Negotiate_def
        refusedPeer_def strings_Contains_def Let_def)



section \<open>The answer for the client\<close>

lemma addCandidates_append:
  "addCandidates i attrs cs = attrs @ addCandidates i [] cs"
proof (induction cs arbitrary: attrs)
  case Nil
  then show ?case by simp
next
  case (Cons c cs)
  show ?case
    using Cons.IH [of attrs]
      Cons.IH [of "attrs @ [\<lparr>Key = ''candidate'',
                 Value = strings_TrimPrefix (cleanWowzaCandidate (Candidate c)) ''candidate:''\<rparr>]"]
      Cons.IH [of "[\<lparr>Key = ''candidate'',
                 Value = strings_TrimPrefix (cleanWowzaCandidate (Candidate c)) ''candidate:''\<rparr>]"]
    by (simp split: option.splits)
qed

lemma addCandidates_filter:
  "addCandidates i [] cs
   = map (\<lambda>c. \<lparr>Key = ''candidate'',
                Value = strings_TrimPrefix (cleanWowzaCandidate (Candidate c)) ''candidate:''\<rparr>)
       (filter (\<lambda>c. case SDPMLineIndex c of None \<Rightarrow> False | Some idx \<Rightarrow> unat idx = i) cs)"
proof (induction cs)
  case Nil
  then show ?case by simp
next
  case (Cons c cs)
  then show ?case
    using addCandidates_append [of i "[\<lparr>Key = ''candidate'',
                 Value = strings_TrimPrefix (cleanWowzaCandidate (Candidate c)) ''candidate:''\<rparr>]" cs]
    by (simp split: option.splits)
qed

lemma addCandidates_drop_nil:
  "addCandidates i attrs (filter (\<lambda>c. SDPMLineIndex c \<noteq> None) cs) = addCandidates i attrs cs"
  by (induction cs arbitrary: attrs) (auto simp del: not_None_eq split: option.splits)

lemma copyCodecAttributes_filter:
  "copyCodecAttributes attrs xs = attrs @ filter (\<lambda>a. Key a \<in> set codecKeys) xs"
  by (induction xs arbitrary: attrs) auto

lemma mid_not_codec: "''mid'' \<notin> set codecKeys" "''candidate'' \<notin> set codecKeys"
  by (simp_all add: codecKeys_def)

lemma acceptedMedia_attrs:
  "m_Attributes (acceptedMedia creds wmd cands i cm)
   = filter (\<lambda>a. Key a \<in> set codecKeys) (m_Attributes wmd)
     @ [\<lparr>Key = ''ice-ufrag'', Value = IceUfrag creds\<rparr>,
        \<lparr>Key = ''ice-pwd'', Value = IcePwd creds\<rparr>,
        \<lparr>Key = ''fingerprint'', Value = Fingerprint creds\<rparr>,
        \<lparr>Key = ''setup'', Value = ''passive''\<rparr>,
        \<lparr>Key = ''mid'', Value = Mid cm\<rparr>,
        \<lparr>Key = ''sendonly'', Value = []\<rparr>,
        \<lparr>Key = ''rtcp-mux'', Value = []\<rparr>]
     @ map (\<lambda>c. \<lparr>Key = ''candidate'',
                Value = strings_TrimPrefix (cleanWowzaCandidate (Candidate c)) ''candidate:''\<rparr>)
       (filter (\<lambda>c. case SDPMLineIndex c of None \<Rightarrow> False | Some idx \<Rightarrow> unat idx = i) cands)"
  unfolding acceptedMedia_def
  by (simp add: addCandidates_append [of i "_ @ _"] addCandidates_filter copyCodecAttributes_filter)

lemma filter_key_codec:
  "k \<notin> set codecKeys \<Longrightarrow> filter (\<lambda>a. Key a \<in> set codecKeys \<and> Key a = k) xs = []"
  by (induction xs) auto




lemma clientSections_nth:
  "i < length cm \<Longrightarrow>
   clientSections creds byType cands k cm ! i
   = (case byType (strings_ToLower (Type (cm ! i))) of
        None \<Rightarrow> rejectedMedia creds (strings_ToLower (Type (cm ! i))) (cm ! i)
      | Some wmd \<Rightarrow> acceptedMedia creds wmd cands (k + i) (cm ! i))"
proof (induction cm arbitrary: k i)
  case Nil
  then show ?case by simp
next
  case (Cons c cm)
  show ?case
  proof (cases i)
    case 0
    then show ?thesis by (simp add: Let_def split: option.splits)
  next
    case (Suc j)
    with Cons.prems have "j < length cm" by simp
    from Cons.IH [OF this, of "Suc k"] Suc show ?thesis
      by (simp add: Let_def split: option.splits)
  qed
qed


lemma clientSections_candidates:
  assumes "i < length cm"
    and "a \<in> set (m_Attributes (clientSections creds byType cands k cm ! i))"
    and "Key a = ''candidate''"
  shows "\<exists>c\<in>set cands. \<exists>idx. SDPMLineIndex c = Some idx \<and> unat idx = k + i
           \<and> Value a = strings_TrimPrefix (cleanWowzaCandidate (Candidate c)) ''candidate:''"
proof (cases "byType (strings_ToLower (Type (cm ! i)))")
  case None
  with assms show ?thesis
    by (auto simp: clientSections_nth rejectedMedia_def)
next
  case (Some wmd)
  with assms(2) have
    "a \<in> set (m_Attributes (acceptedMedia creds wmd cands (k + i) (cm ! i)))"
    by (simp add: clientSections_nth [OF assms(1)])
  with assms(3) mid_not_codec(2) show ?thesis
    unfolding acceptedMedia_attrs
    by (fastforce split: option.splits)
qed

lemma clientSections_drop_nil:
  "clientSections creds byType (filter (\<lambda>c. SDPMLineIndex c \<noteq> None) cands) k cm
   = clientSections creds byType cands k cm"
  by (induction cm arbitrary: k)
     (simp_all add: Let_def acceptedMedia_def addCandidates_drop_nil del: not_None_eq
        split: option.splits)

lemma answerDescForClient_drop_nil:
  "answerDescForClient creds desc cm (filter (\<lambda>c. SDPMLineIndex c \<noteq> None) cands)
   = answerDescForClient creds desc cm cands"
  by (simp add: answerDescForClient_def clientSections_drop_nil del: not_None_eq)

lemma CreateAnswerForClient_success:
  assumes "CreateAnswerForClient lib wowzaOffer clientOffer cands = Inr answer"
  shows "\<exists>wowzaCreds wowzaDesc.
           ExtractCredentials wowzaOffer = Inr wowzaCreds
           \<and> Fingerprint wowzaCreds \<noteq> []
           \<and> Unmarshal lib wowzaOffer = Inr wowzaDesc
           \<and> answer = Marshal (answerDescForClient wowzaCreds wowzaDesc
                                  (ExtractMediaOrder clientOffer) cands)"
  using assms
  by (auto simp: CreateAnswerForClient_def Let_def split: sum.splits if_splits)



lemma scenario_answer_for_client:
  "CreateAnswerForClient scenarioLib scenarioWowzaOffer scenarioClientOffer scenarioCandidates
   = Inr scenarioAnswerForClient"
  by code_simp

lemma session_level_answer:
  "CreateAnswerForWowza scenarioLib sessionLevelOffer scenarioClientOffer = Inr sessionLevelAnswer"
  by code_simp

lemma scenario_media_order:
  "ExtractMediaOrder scenarioClientOffer
   = [\<lparr>Mid = ''video'', Type = ''video''\<rparr>, \<lparr>Mid = ''audio'', Type = ''audio''\<rparr>]"
  by code_simp



lemma sublist_app_left: "sublist xs ys \<Longrightarrow> sublist xs (ys @ zs)"
proof -
  assume "sublist xs ys"
  then obtain ps ss where "ys = ps @ xs @ ss" unfolding sublist_def by blast
  then have "ys @ zs = ps @ xs @ (ss @ zs)" by simp
  then show ?thesis unfolding sublist_def by blast
qed






lemma acceptedMedia_candidates:
  "filter (\<lambda>a. Key a = ''candidate'') (m_Attributes (acceptedMedia creds wmd cands i cm))
   = map (\<lambda>c. \<lparr>Key = ''candidate'',
                Value = strings_TrimPrefix (cleanWowzaCandidate (Candidate c)) ''candidate:''\<rparr>)
       (filter (\<lambda>c. case SDPMLineIndex c of None \<Rightarrow> False | Some idx \<Rightarrow> unat idx = i) cands)"
  by (simp add: acceptedMedia_attrs filter_key_codec mid_not_codec filter_map comp_def)

lemma clientSections_candidates_exact:
  assumes "i < length cm"
  shows "filter (\<lambda>a. Key a = ''candidate'')
           (m_Attributes (clientSections creds byType cands k cm ! i))
         = (case byType (strings_ToLower (Type (cm ! i))) of
              None \<Rightarrow> []
            | Some wmd \<Rightarrow>
                map (\<lambda>c. \<lparr>Key = ''candidate'',
                          Value = strings_TrimPrefix (cleanWowzaCandidate (Candidate c))
                                    ''candidate:''\<rparr>)
                  (filter (\<lambda>c. case SDPMLineIndex c of None \<Rightarrow> False
                                | Some idx \<Rightarrow> unat idx = k + i) cands))"
  unfolding clientSections_nth [OF assms]
  by (simp add: acceptedMedia_candidates rejectedMedia_def split: option.splits)




text \<open>
  C9. A candidate without \<open>sdpMLineIndex\<close> has no effect on the returned text:
  removing all such candidates from the list gives the same result. In the
  description that is serialised no session-level attribute is a candidate, and the
  candidate attributes of the section at index \<open>i\<close> are, in order, exactly the cleaned
  candidates whose index is present and equal to \<open>i\<close> when Wowza offers the media type
  of that section, and none otherwise. For scenario S1, whose second candidate has no
  index, the returned text is the one written out in \<open>scenarioAnswerForClient\<close>.
\<close>

theorem nil_index_candidates_are_dropped:
  "CreateAnswerForClient lib wowzaOffer clientOffer
       (filter (\<lambda>c. SDPMLineIndex c \<noteq> None) wowzaCandidates)
     = CreateAnswerForClient lib wowzaOffer clientOffer wowzaCandidates
   \<and> (CreateAnswerForClient lib wowzaOffer clientOffer wowzaCandidates = Inr answer
      \<longrightarrow> (\<exists>wowzaCreds wowzaDesc.
             answer = Marshal (answerDescForClient wowzaCreds wowzaDesc
                                    (ExtractMediaOrder clientOffer) wowzaCandidates)))
   \<and> (\<forall>a\<in>set (Attributes (answerDescForClient creds desc clientMedia cands)).
         Key a \<noteq> ''candidate'')
   \<and> (\<forall>i<length clientMedia.
        filter (\<lambda>a. Key a = ''candidate'')
          (m_Attributes (MediaDescriptions (answerDescForClient creds desc clientMedia cands) ! i))
        = (case wowzaMediaByType (MediaDescriptions desc)
                  (strings_ToLower (Type (clientMedia ! i))) of
             None \<Rightarrow> []
           | Some wowzaMD \<Rightarrow>
               map (\<lambda>c. \<lparr>Key = ''candidate'',
                         Value = strings_TrimPrefix (cleanWowzaCandidate (Candidate c))
                                   ''candidate:''\<rparr>)
                 (filter (\<lambda>c. case SDPMLineIndex c of None \<Rightarrow> False
                               | Some idx \<Rightarrow> unat idx = i) cands)))
   \<and> (\<forall>i<length clientMedia.
        \<forall>a\<in>set (m_Attributes
                   (MediaDescriptions (answerDescForClient creds desc clientMedia cands) ! i)).
          Key a = ''candidate'' \<longrightarrow>
          (\<exists>c\<in>set cands. \<exists>idx. SDPMLineIndex c = Some idx \<and> unat idx = i
             \<and> Value a = strings_TrimPrefix (cleanWowzaCandidate (Candidate c)) ''candidate:''))
   \<and> CreateAnswerForClient scenarioLib scenarioWowzaOffer scenarioClientOffer scenarioCandidates
       = Inr scenarioAnswerForClient"
proof (intro conjI impI allI ballI)
  show "CreateAnswerForClient lib wowzaOffer clientOffer
       (filter (\<lambda>c. SDPMLineIndex c \<noteq> None) wowzaCandidates)
     = CreateAnswerForClient lib wowzaOffer clientOffer wowzaCandidates"
    by (simp add: CreateAnswerForClient_def answerDescForClient_drop_nil Let_def
          del: not_None_eq split: sum.splits)
next
  assume "CreateAnswerForClient lib wowzaOffer clientOffer wowzaCandidates = Inr answer"
  from CreateAnswerForClient_success [OF this]
  show "\<exists>wowzaCreds wowzaDesc.
             answer = Marshal (answerDescForClient wowzaCreds wowzaDesc
                                    (ExtractMediaOrder clientOffer) wowzaCandidates)"
    by blast
next
  fix a assume "a \<in> set (Attributes (answerDescForClient creds desc clientMedia cands))"
  then show "Key a \<noteq> ''candidate''"
    by (auto simp: answerDescForClient_def)
next
  fix i assume "i < length clientMedia"
  then show "filter (\<lambda>a. Key a = ''candidate'')
          (m_Attributes (MediaDescriptions (answerDescForClient creds desc clientMedia cands) ! i))
        = (case wowzaMediaByType (MediaDescriptions desc)
                  (strings_ToLower (Type (clientMedia ! i))) of
             None \<Rightarrow> []
           | Some wowzaMD \<Rightarrow>
               map (\<lambda>c. \<lparr>Key = ''candidate'',
                         Value = strings_TrimPrefix (cleanWowzaCandidate (Candidate c))
                                   ''candidate:''\<rparr>)
                 (filter (\<lambda>c. case SDPMLineIndex c of None \<Rightarrow> False
                               | Some idx \<Rightarrow> unat idx = i) cands))"
    using clientSections_candidates_exact [of i clientMedia creds
        "wowzaMediaByType (MediaDescriptions desc)" cands 0]
    by (simp add: answerDescForClient_def split: option.splits)
next
  fix i a
  assume "i < length clientMedia"
    and "a \<in> set (m_Attributes
                   (MediaDescriptions (answerDescForClient creds desc clientMedia cands) ! i))"
    and "Key a = ''candidate''"
  then show "\<exists>c\<in>set cands. \<exists>idx. SDPMLineIndex c = Some idx \<and> unat idx = i
             \<and> Value a = strings_TrimPrefix (cleanWowzaCandidate (Candidate c)) ''candidate:''"
    using clientSections_candidates [of i clientMedia a creds _ cands 0]
    by (simp add: answerDescForClient_def)
next
  show "CreateAnswerForClient scenarioLib scenarioWowzaOffer scenarioClientOffer scenarioCandidates
       = Inr scenarioAnswerForClient"
    by (rule scenario_answer_for_client)
qed

theorem nil_index_candidates_are_dropped_witness:
  "CreateAnswerForClient scenarioLib scenarioWowzaOffer scenarioClientOffer scenarioCandidates
     = Inr scenarioAnswerForClient
   \<and> CreateAnswerForClient scenarioLib scenarioWowzaOffer scenarioClientOffer
       (filter (\<lambda>c. SDPMLineIndex c \<noteq> None) scenarioCandidates)
     = Inr scenarioAnswerForClient
   \<and> \<not> strings_Contains scenarioAnswerForClient ''TCP''
   \<and> 0 < length (ExtractMediaOrder scenarioClientOffer)
   \<and> \<lparr>Key = ''candidate'', Value = ''1 1 UDP 2130706431 1.2.3.4 9 typ host''\<rparr>
        \<in> set (m_Attributes (MediaDescriptions (answerDescForClient scenarioWowzaCreds
              scenarioWowzaDesc (ExtractMediaOrder scenarioClientOffer) scenarioCandidates) ! 0))
   \<and> (\<exists>c\<in>set scenarioCandidates. \<exists>idx. SDPMLineIndex c = Some idx \<and> unat idx = 0
         \<and> ''1 1 UDP 2130706431 1.2.3.4 9 typ host''
             = strings_TrimPrefix (cleanWowzaCandidate (Candidate c)) ''candidate:'')"
proof -
  let ?a = "\<lparr>Key = ''candidate'', Value = ''1 1 UDP 2130706431 1.2.3.4 9 typ host''\<rparr>"
  note t = nil_index_candidates_are_dropped [of scenarioLib scenarioWowzaOffer
      scenarioClientOffer scenarioCandidates scenarioAnswerForClient scenarioWowzaCreds
      scenarioWowzaDesc "ExtractMediaOrder scenarioClientOffer" scenarioCandidates]
  have h0: "CreateAnswerForClient scenarioLib scenarioWowzaOffer scenarioClientOffer
              scenarioCandidates = Inr scenarioAnswerForClient"
    by (rule scenario_answer_for_client)
  have h1: "0 < length (ExtractMediaOrder scenarioClientOffer)"
    by (simp add: scenario_media_order)
  have h2: "?a \<in> set (m_Attributes (MediaDescriptions (answerDescForClient scenarioWowzaCreds
              scenarioWowzaDesc (ExtractMediaOrder scenarioClientOffer) scenarioCandidates) ! 0))"
    by code_simp
  have h3: "Key ?a = ''candidate''" by simp
  have h4: "\<not> strings_Contains scenarioAnswerForClient ''TCP''" by code_simp
  from t h0 have c1: "CreateAnswerForClient scenarioLib scenarioWowzaOffer scenarioClientOffer
       (filter (\<lambda>c. SDPMLineIndex c \<noteq> None) scenarioCandidates) = Inr scenarioAnswerForClient"
    by simp
  from t h1 h2 h3 have c2: "\<exists>c\<in>set scenarioCandidates. \<exists>idx. SDPMLineIndex c = Some idx
         \<and> unat idx = 0
         \<and> Value ?a = strings_TrimPrefix (cleanWowzaCandidate (Candidate c)) ''candidate:''"
    by blast
  show ?thesis
    using h0 c1 h1 h2 h4 c2 by simp
qed

section \<open>The answer for Wowza\<close>














section \<open>The address filter\<close>

lemma byte_cases:
  "list_all (\<lambda>n. (and (word_of_nat n :: 8 word) 0xF0 = 16)
                    = (16 \<le> (word_of_nat n :: 8 word) \<and> (word_of_nat n :: 8 word) \<le> 31))
     [0..<256]"
  by code_simp

lemma and_F0:
  "(and (b :: 8 word) 0xF0 = 16) = (16 \<le> b \<and> b \<le> 31)"
proof -
  have "unat b < 256" using unsigned_less [of b] by simp
  then have "unat b \<in> set [0..<256]" by simp
  with byte_cases have
    "(and (word_of_nat (unat b) :: 8 word) 0xF0 = 16)
     = (16 \<le> (word_of_nat (unat b) :: 8 word) \<and> (word_of_nat (unat b) :: 8 word) \<le> 31)"
    unfolding list_all_iff by blast
  then show ?thesis by simp
qed

lemma excluded_iff:
  "(To4 ip = None \<or> isPrivateIP (Some ip)) = excludedAddress ip"
proof (cases "To4 ip")
  case None
  then show ?thesis by (simp add: excludedAddress_def)
next
  case (Some ip4)
  then show ?thesis
    by (simp add: excludedAddress_def isPrivateIP_def IsPrivate_def IsLoopback_def
          IsLinkLocalUnicast_def rfc1918_def loopback4_def linkLocal4_def and_F0)
qed

lemma filterLines_filter:
  "filterLines lib acc ls = acc @ filter (\<lambda>l. \<not> removedLine lib l) ls"
proof (induction ls arbitrary: acc)
  case Nil
  then show ?case by simp
next
  case (Cons l ls)
  have c: "(strings_HasPrefix l ''a=candidate:''
              \<and> (let parts = strings_Fields l
                  in length parts \<ge> 5
                     \<and> (let ip = ParseIP lib (parts ! 4)
                        in ip \<noteq> None \<and> (To4 (the ip) = None \<or> isPrivateIP ip))))
           = (strings_HasPrefix l ''a=candidate:''
              \<and> length (strings_Fields l) \<ge> 5
              \<and> (case ParseIP lib (strings_Fields l ! 4) of
                    None \<Rightarrow> False | Some ip \<Rightarrow> excludedAddress ip))"
    by (cases "ParseIP lib (strings_Fields l ! 4)") (simp_all add: Let_def excluded_iff)
  show ?case
  proof (cases "removedLine lib l")
    case True
    then show ?thesis
      using Cons.IH [of acc] c by (auto simp: removedLine_def)
  next
    case False
    then show ?thesis
      using Cons.IH [of "acc @ [l]"] c by (auto simp: removedLine_def)
  qed
qed

text \<open>
  C4, as amended. Taking as the lines of a string the pieces between \<open>CR LF\<close>
  sequences, \<open>filterPrivateIPs\<close> returns, joined by \<open>CR LF\<close> and in their order,
  exactly the lines that are not removed: it drops every line that begins with
  \<open>a=end-of-candidates\<close> and every line that begins with \<open>a=candidate:\<close> and whose
  fifth field parses to an address that is RFC 1918, loopback, link-local or without
  a 4-byte form, and keeps every other line unchanged. In scenario S3 only the
  candidates \<open>93.184.216.34\<close> and \<open>host.local\<close> (which does not parse) remain.
\<close>

theorem filterPrivateIPs_removes_exactly:
  "filterPrivateIPs lib sdpStr
     = strings_Join (filter (\<lambda>line. \<not> removedLine lib line) (strings_Split sdpStr CRLF)) CRLF
   \<and> filterPrivateIPs scenarioLib scenarioUnfiltered = scenarioFiltered"
proof
  show "filterPrivateIPs lib sdpStr
     = strings_Join (filter (\<lambda>line. \<not> removedLine lib line) (strings_Split sdpStr CRLF)) CRLF"
    by (simp add: filterPrivateIPs_def filterLines_filter)
  show "filterPrivateIPs scenarioLib scenarioUnfiltered = scenarioFiltered"
    by code_simp
qed

theorem filterPrivateIPs_removes_exactly_witness:
  "removedLine scenarioLib ''a=candidate:1 1 UDP 100 10.0.0.1 9 typ host''
   \<and> removedLine scenarioLib ''a=candidate:3 1 UDP 100 fe80::1 9 typ host''
   \<and> removedLine scenarioLib ''a=end-of-candidates''
   \<and> \<not> removedLine scenarioLib ''a=candidate:2 1 UDP 100 93.184.216.34 9 typ host''
   \<and> \<not> removedLine scenarioLib ''a=mid:0''
   \<and> strings_Split scenarioUnfiltered CRLF
       = [''v=0'', ''m=video 9 UDP/TLS/RTP/SAVPF 97'', ''a=mid:0'',
          ''a=candidate:1 1 UDP 100 10.0.0.1 9 typ host'',
          ''a=candidate:2 1 UDP 100 93.184.216.34 9 typ host'',
          ''a=candidate:3 1 UDP 100 fe80::1 9 typ host'',
          ''a=candidate:4 1 UDP 100 host.local 9 typ host'',
          ''a=end-of-candidates'', []]
   \<and> filterPrivateIPs scenarioLib scenarioUnfiltered
       = strings_Join [''v=0'', ''m=video 9 UDP/TLS/RTP/SAVPF 97'', ''a=mid:0'',
                       ''a=candidate:2 1 UDP 100 93.184.216.34 9 typ host'',
                       ''a=candidate:4 1 UDP 100 host.local 9 typ host'', []] CRLF"
proof -
  have r: "removedLine scenarioLib ''a=candidate:1 1 UDP 100 10.0.0.1 9 typ host''"
    "removedLine scenarioLib ''a=candidate:3 1 UDP 100 fe80::1 9 typ host''"
    "removedLine scenarioLib ''a=end-of-candidates''"
    "\<not> removedLine scenarioLib ''a=candidate:2 1 UDP 100 93.184.216.34 9 typ host''"
    "\<not> removedLine scenarioLib ''a=candidate:4 1 UDP 100 host.local 9 typ host''"
    "\<not> removedLine scenarioLib ''a=mid:0''"
    "\<not> removedLine scenarioLib ''v=0''"
    "\<not> removedLine scenarioLib ''m=video 9 UDP/TLS/RTP/SAVPF 97''"
    "\<not> removedLine scenarioLib []"
    by code_simp+
  have sp: "strings_Split scenarioUnfiltered CRLF
       = [''v=0'', ''m=video 9 UDP/TLS/RTP/SAVPF 97'', ''a=mid:0'',
          ''a=candidate:1 1 UDP 100 10.0.0.1 9 typ host'',
          ''a=candidate:2 1 UDP 100 93.184.216.34 9 typ host'',
          ''a=candidate:3 1 UDP 100 fe80::1 9 typ host'',
          ''a=candidate:4 1 UDP 100 host.local 9 typ host'',
          ''a=end-of-candidates'', []]"
    by code_simp
  have "filterPrivateIPs scenarioLib scenarioUnfiltered
       = strings_Join [''v=0'', ''m=video 9 UDP/TLS/RTP/SAVPF 97'', ''a=mid:0'',
                       ''a=candidate:2 1 UDP 100 93.184.216.34 9 typ host'',
                       ''a=candidate:4 1 UDP 100 host.local 9 typ host'', []] CRLF"
    using filterPrivateIPs_removes_exactly [of scenarioLib scenarioUnfiltered]
    unfolding sp using r by (simp del: strings_Join.simps)
  with r sp show ?thesis by blast
qed

text \<open>
  C4 as stated fails on an SDP whose lines end in LF alone: the function splits at
  \<open>CR LF\<close> only, the whole text is one line to it, and the private candidate and
  \<open>a=end-of-candidates\<close> stay in the output.
\<close>

theorem filterPrivateIPs_counterexample:
  "splitSDPLines lfTerminated
     = [''v=0'', ''a=candidate:1 1 UDP 100 10.0.0.1 9 typ host'', ''a=end-of-candidates'', []]
   \<and> ParseIP scenarioLib
        (strings_Fields ''a=candidate:1 1 UDP 100 10.0.0.1 9 typ host'' ! 4)
       = Some (mapped4 10 0 0 1)
   \<and> IsPrivate (mapped4 10 0 0 1)
   \<and> filterPrivateIPs scenarioLib lfTerminated = lfTerminated"
  by code_simp

end
